theory Spec2Isabelle
  imports Main "HOL-Library.Word"
begin

section \<open>Data of \<^verbatim>\<open>scripts/generate_enum_source.py\<close>\<close>

text \<open>
  A Python \<^verbatim>\<open>str\<close> is a sequence of Unicode code points, a \<^verbatim>\<open>bytes\<close> object a
  sequence of octets. String constants of the script are ASCII and are written as HOL
  string literals, injected with \<open>u\<close>.
\<close>

type_synonym ustr = "nat list"
type_synonym bytes = "8 word list"

definition u :: "string \<Rightarrow> ustr" where
  "u s = map of_char s"

text \<open>
  The namespace returned by \<^verbatim>\<open>parser.parse_args()\<close> (\<^verbatim>\<open>create_parser\<close>, lines 18-50).
  \<^verbatim>\<open>--replace\<close> has \<^verbatim>\<open>nargs=2, action='append'\<close>: a list of two-element lists, or
  \<^verbatim>\<open>None\<close> when the option is not given. \<^verbatim>\<open>--source-dir\<close> and \<^verbatim>\<open>--out-dir\<close> have no
  default, so they are \<^verbatim>\<open>None\<close> when not given.
\<close>

record args =
  output_file :: ustr
  sources :: "ustr list"
  replace :: "(ustr \<times> ustr) list option"
  source_dir :: "ustr option"
  out_dir :: "ustr list option"

text \<open>
  Exceptions that can leave a function of the script, and the two ways the script ends
  abnormally: \<^verbatim>\<open>sys.exit(n)\<close>, or an exception nobody catches.
\<close>

datatype exn = TypeError | OSError | UnicodeDecodeError | ReError | OverflowError

datatype abort = SystemExit int | Uncaught exn

section \<open>Template sections (\<^verbatim>\<open>get_template_sections\<close>, lines 78-124)\<close>

text \<open>The loop of lines 87-88: \<^verbatim>\<open>fhead += '#include "{}"\n'.format(s)\<close>.\<close>

fun fhead_loop :: "ustr list \<Rightarrow> ustr \<Rightarrow> ustr" where
  "fhead_loop [] fhead = fhead"
| \<open>fhead_loop (s # rest) fhead =
     fhead_loop rest (fhead @ (u ''#include "'' @ s @ u ''"\<newline>''))\<close>

text \<open>The triple-quoted literal of lines 90-93.\<close>

definition fhead_macros :: ustr where
  "fhead_macros = u (''\<newline>'' @
     ''        #define C_ENUM(v) ((gint) v)\<newline>'' @
     ''        #define C_FLAGS(v) ((gint) v)\<newline>'' @
     ''    '')"

text \<open>The literal of line 96, with the \<^verbatim>\<open>{}\<close> of \<^verbatim>\<open>format\<close> cut out.\<close>

definition fprod_format :: "ustr \<Rightarrow> ustr" where
  \<open>fprod_format fprod = fprod @ u ''\<newline>/* enumerations from "@basename@" */\<newline>''\<close>

text \<open>The triple-quoted literal of lines 99-106.\<close>

definition vhead_text :: ustr where
  "vhead_text = u (''\<newline>'' @
     ''        GType\<newline>'' @
     ''        @enum_name@_get_type (void)\<newline>'' @
     ''            {\<newline>'' @
     ''                static GType etype = 0;\<newline>'' @
     ''                if (etype == 0) {\<newline>'' @
     ''                    static const G@Type@Value values[] = {\<newline>'' @
     ''    '')"

text \<open>The literal of line 109.\<close>

definition vprod_text :: ustr where
  \<open>vprod_text = u ''\<newline>{ @VALUENAME@, "@VALUENAME@", "@valuenick@" },\<newline>''\<close>

text \<open>The triple-quoted literal of lines 112-119.\<close>

definition vtail_text :: ustr where
  \<open>vtail_text = u (''\<newline>'' @
     ''            { 0, NULL, NULL }\<newline>'' @
     ''        };\<newline>'' @
     ''        etype = g_@type@_register_static ("@EnumName@", values);\<newline>'' @
     ''      }\<newline>'' @
     ''      return etype;\<newline>'' @
     ''    }\<newline>'' @
     ''    '')\<close>

text \<open>The literal of line 122.\<close>

definition ftail_format :: "ustr \<Rightarrow> ustr" where
  "ftail_format ftail = ftail @ u ''G_END_DECLS''"

text \<open>
  The six variables start empty (lines 79-84), are built in the order of the source and
  returned as \<^verbatim>\<open>fhead, fprod, ftail, vhead, vprod, vtail\<close>.
\<close>

definition get_template_sections ::
  "args \<Rightarrow> ustr \<times> ustr \<times> ustr \<times> ustr \<times> ustr \<times> ustr" where
  "get_template_sections a =
     (let fhead = ([]::ustr); fprod = ([]::ustr); ftail = ([]::ustr);
          vhead = ([]::ustr); vprod = ([]::ustr); vtail = ([]::ustr);
          fhead = fhead_loop (sources a) fhead;
          fhead = fhead @ fhead_macros;
          fprod = fprod_format fprod;
          vhead = vhead_text;
          vprod = vprod @ vprod_text;
          vtail = vtail @ vtail_text;
          ftail = ftail_format ftail
      in (fhead, fprod, ftail, vhead, vprod, vtail))"

section \<open>The world outside the script\<close>

text \<open>
  What a child process does, as far as the script can see it: the bytes it writes to the
  pipe on its standard output, the lines it writes on its standard error, which it
  inherits from the script because line 72 pipes standard output only, and its exit
  status.
\<close>

record proc =
  stdout_data :: bytes
  stderr_lines :: "ustr list"
  returncode :: int

text \<open>
  What \<^verbatim>\<open>parser.parse_args()\<close> does with a command line: it returns the namespace, or
  (\<^verbatim>\<open>-h\<close>) prints the help text on standard output and exits with status 0, or
  rejects the command line through \<^verbatim>\<open>parser.error\<close>, which prints the usage and
  the message on standard error and exits with status 2.
\<close>

datatype parsed = Parsed args | HelpRequested ustr | Rejected ustr

text \<open>
  The environment of one run, read but never changed by the script:
  \<^item> \<open>isdir\<close>: \<^verbatim>\<open>os.path.isdir\<close> on a string;
  \<^item> \<open>which\<close>: \<^verbatim>\<open>shutil.which\<close>, \<open>None\<close> when the name is not on the search path;
  \<^item> \<open>script_dir\<close>: \<^verbatim>\<open>path.dirname(path.realpath(sys.argv[0]))\<close>;
  \<^item> \<open>spawn\<close>: the operating system running an argument vector, \<open>Inl\<close> when the
    launch itself raises;
  \<^item> \<open>re_sub\<close>: \<^verbatim>\<open>re.sub(pattern, repl, string)\<close>, \<open>Inl\<close> when it raises
    (\<open>ReError\<close> is \<^verbatim>\<open>re.error\<close>);
  \<^item> \<open>re_warnings\<close>: the lines that call makes the \<^verbatim>\<open>warnings\<close> module print on
    standard error (a \<^verbatim>\<open>FutureWarning\<close> of the pattern compiler, for instance),
    whether it then returns or raises;
  \<^item> \<open>can_open\<close>: whether \<^verbatim>\<open>open(p, 'w+')\<close> succeeds;
  \<^item> \<open>debug\<close>: Python's \<^verbatim>\<open>__debug__\<close>. It is \<open>True\<close> unless the interpreter runs
    with \<^verbatim>\<open>-O\<close> or \<^verbatim>\<open>PYTHONOPTIMIZE\<close>, which compile every \<^verbatim>\<open>assert\<close> statement
    away, its condition included;
  \<^item> \<open>parse_args\<close>: \<^verbatim>\<open>argparse\<close> on the parser of lines 18-50.
\<close>

record env =
  isdir :: "ustr \<Rightarrow> bool"
  which :: "ustr \<Rightarrow> ustr option"
  script_dir :: ustr
  spawn :: "ustr list \<Rightarrow> exn + proc"
  re_sub :: "ustr \<Rightarrow> ustr \<Rightarrow> ustr \<Rightarrow> exn + ustr"
  re_warnings :: "ustr \<Rightarrow> ustr \<Rightarrow> ustr \<Rightarrow> ustr list"
  can_open :: "ustr \<Rightarrow> bool"
  debug :: bool
  parse_args :: "ustr list \<Rightarrow> parsed"

text \<open>
  What a run changes: the text files it writes, the lines it prints, the subprocesses
  it has started. \<open>stderr\<close> receives what the generator and the \<^verbatim>\<open>warnings\<close> module
  write there, the message of \<^verbatim>\<open>argparse\<close>, and the interpreter's traceback when an
  exception is not caught; the script itself never writes to it.
\<close>

record world =
  files :: "ustr \<rightharpoonup> ustr"
  stdout :: "ustr list"
  stderr :: "ustr list"
  spawned :: "ustr list list"

definition print :: "ustr \<Rightarrow> world \<Rightarrow> world" where
  "print line w = w\<lparr>stdout := stdout w @ [line]\<rparr>"

definition on_stderr :: "ustr list \<Rightarrow> world \<Rightarrow> world" where
  "on_stderr lines w = w\<lparr>stderr := stderr w @ lines\<rparr>"

definition get_script_path :: "env \<Rightarrow> ustr" where
  "get_script_path e = script_dir e"

text \<open>
  \<^verbatim>\<open>os.path.isdir(s)\<close> calls \<^verbatim>\<open>os.stat(s)\<close> and catches \<^verbatim>\<open>OSError\<close> and
  \<^verbatim>\<open>ValueError\<close> only: on \<^verbatim>\<open>None\<close> the \<^verbatim>\<open>TypeError\<close> of \<^verbatim>\<open>os.stat\<close> leaves it.
\<close>

definition path_isdir :: "env \<Rightarrow> ustr option \<Rightarrow> exn + bool" where
  "path_isdir e s = (case s of None \<Rightarrow> Inl TypeError | Some p \<Rightarrow> Inr (isdir e p))"

text \<open>\<^verbatim>\<open>posixpath.join(a, b)\<close> with one component \<open>b\<close>.\<close>

definition path_join :: "ustr \<Rightarrow> ustr \<Rightarrow> ustr" where
  "path_join a b =
     (if b \<noteq> [] \<and> hd b = of_char CHR ''/'' then b
      else if a = [] \<or> last a = of_char CHR ''/'' then a @ b
      else a @ u ''/'' @ b)"

text \<open>
  \<^verbatim>\<open>subprocess.Popen(cmd, stdout=subprocess.PIPE)\<close>: a \<^verbatim>\<open>None\<close> in the argument list
  is rejected with \<^verbatim>\<open>TypeError\<close> before anything is started.
\<close>

definition Popen :: "env \<Rightarrow> ustr option list \<Rightarrow> world \<Rightarrow> (exn + proc) \<times> world" where
  "Popen e cmd w =
     (if None \<in> set cmd then (Inl TypeError, w)
      else (case spawn e (map the cmd) of
              Inl x \<Rightarrow> (Inl x, w)
            | Inr p \<Rightarrow> (Inr p, w\<lparr>spawned := spawned w @ [map the cmd]\<rparr>)))"

text \<open>
  \<^verbatim>\<open>process.communicate()\<close> waits for the child: by then the child has written its
  lines on the standard error it shares with the script. The second component of the
  result is the captured standard error, \<^verbatim>\<open>None\<close> here because \<^verbatim>\<open>Popen\<close> was not
  given \<^verbatim>\<open>stderr=PIPE\<close>.
\<close>

definition communicate :: "proc \<Rightarrow> world \<Rightarrow> (bytes \<times> bytes option) \<times> world" where
  "communicate p w = ((stdout_data p, None), on_stderr (stderr_lines p) w)"

text \<open>
  \<^verbatim>\<open>bytes.decode('utf-8')\<close> with the default \<^verbatim>\<open>errors='strict'\<close>: \<open>None\<close> stands for
  \<^verbatim>\<open>UnicodeDecodeError\<close>. The accepted sequences are the well-formed ones: no overlong
  form, no surrogate, nothing above U+10FFFF, no stray or missing continuation byte.
\<close>

definition between :: "nat \<Rightarrow> nat \<Rightarrow> 8 word \<Rightarrow> bool" where
  "between lo hi b = (lo \<le> unat b \<and> unat b \<le> hi)"

definition second_lo :: "nat \<Rightarrow> nat" where
  "second_lo n0 = (if n0 = 0xE0 then 0xA0 else if n0 = 0xF0 then 0x90 else 0x80)"

definition second_hi :: "nat \<Rightarrow> nat" where
  "second_hi n0 = (if n0 = 0xED then 0x9F else if n0 = 0xF4 then 0x8F else 0xBF)"

definition tail6 :: "8 word \<Rightarrow> nat" where
  "tail6 b = unat b - 0x80"

fun utf8_decode :: "bytes \<Rightarrow> ustr option" where
  "utf8_decode [] = Some []"
| "utf8_decode (b0 # bs) =
     (if unat b0 < 0x80 then map_option ((#) (unat b0)) (utf8_decode bs)
      else if between 0xC2 0xDF b0 then
        (case bs of
           b1 # r \<Rightarrow>
             if between 0x80 0xBF b1
             then map_option ((#) ((unat b0 - 0xC0) * 64 + tail6 b1)) (utf8_decode r)
             else None
         | _ \<Rightarrow> None)
      else if between 0xE0 0xEF b0 then
        (case bs of
           b1 # b2 # r \<Rightarrow>
             if between (second_lo (unat b0)) (second_hi (unat b0)) b1 \<and> between 0x80 0xBF b2
             then map_option ((#) ((unat b0 - 0xE0) * 4096 + tail6 b1 * 64 + tail6 b2))
                    (utf8_decode r)
             else None
         | _ \<Rightarrow> None)
      else if between 0xF0 0xF4 b0 then
        (case bs of
           b1 # b2 # b3 # r \<Rightarrow>
             if between (second_lo (unat b0)) (second_hi (unat b0)) b1 \<and> between 0x80 0xBF b2
                \<and> between 0x80 0xBF b3
             then map_option
                    ((#) ((unat b0 - 0xF0) * 262144 + tail6 b1 * 4096 + tail6 b2 * 64 + tail6 b3))
                    (utf8_decode r)
             else None
         | _ \<Rightarrow> None)
      else None)"

section \<open>Running the generator (\<^verbatim>\<open>create_enum_source\<close>, lines 52-76)\<close>

definition source_dir_message :: ustr where
  "source_dir_message = u ''Argument given to --source-dir is not a directory.''"

text \<open>
  Lines 53-57: the \<^verbatim>\<open>try\<close> catches \<^verbatim>\<open>AssertionError\<close> only, so an exception of
  \<^verbatim>\<open>path.isdir\<close> itself is not caught; without \<open>debug\<close> the \<^verbatim>\<open>assert\<close> is not
  there and \<^verbatim>\<open>path.isdir\<close> is not called. Lines 59-62 build \<open>sources\<close>, lines 64-71 the
  command, whose first element is whatever \<^verbatim>\<open>which\<close> returned. Lines 72-76 run it:
  \<^verbatim>\<open>raise error\<close> with \<open>error\<close> a \<^verbatim>\<open>bytes\<close> object is a \<^verbatim>\<open>TypeError\<close>; the field
  \<open>returncode\<close> is never read.
\<close>

definition create_enum_source ::
  "env \<Rightarrow> args \<Rightarrow> ustr \<Rightarrow> ustr \<Rightarrow> ustr \<Rightarrow> ustr \<Rightarrow> ustr \<Rightarrow> ustr \<Rightarrow> world
     \<Rightarrow> (abort + ustr) \<times> world" where
  "create_enum_source e a fhead fprod ftail vhead vprod vtail w =
     (case (if debug e then path_isdir e (source_dir a) else Inr True) of
        Inl x \<Rightarrow> (Inl (Uncaught x), w)
      | Inr False \<Rightarrow> (Inl (SystemExit (- 1)), print source_dir_message w)
      | Inr True \<Rightarrow>
          (let sources' =
                 (case source_dir a of
                    Some d \<Rightarrow> map (\<lambda>source_file. path_join d source_file) (sources a)
                  | None \<Rightarrow>
                      map (\<lambda>source_file. path_join (get_script_path e) source_file) (sources a));
               bash_command =
                 [which e (u ''glib-mkenums''),
                  Some (u ''--fhead''), Some fhead,
                  Some (u ''--fprod''), Some fprod,
                  Some (u ''--ftail''), Some ftail,
                  Some (u ''--vhead''), Some vhead,
                  Some (u ''--vprod''), Some vprod,
                  Some (u ''--vtail''), Some vtail] @ map Some sources'
           in (case Popen e bash_command w of
                 (Inl x, w') \<Rightarrow> (Inl (Uncaught x), w')
               | (Inr process, w') \<Rightarrow>
                   (case communicate process w' of
                      ((output, Some error), w'') \<Rightarrow> (Inl (Uncaught TypeError), w'')
                    | ((output, None), w'') \<Rightarrow>
                        (case utf8_decode output of
                           None \<Rightarrow> (Inl (Uncaught UnicodeDecodeError), w'')
                         | Some text \<Rightarrow> (Inr text, w''))))))"

section \<open>Replacements (the loop of \<^verbatim>\<open>__main__\<close>, lines 149-154)\<close>

text \<open>
  \<^verbatim>\<open>for regex_tuple in args.replace\<close>: each pass rebinds \<open>output\<close>; \<^verbatim>\<open>re.error\<close> is
  caught and becomes \<^verbatim>\<open>sys.exit(-1)\<close>, any other exception of \<^verbatim>\<open>re.sub\<close> is not caught.
\<close>

fun replace_loop :: "env \<Rightarrow> (ustr \<times> ustr) list \<Rightarrow> ustr \<Rightarrow> abort + ustr" where
  "replace_loop e [] output = Inr output"
| "replace_loop e (regex_tuple # rest) output =
     (case re_sub e (fst regex_tuple) (snd regex_tuple) output of
        Inl x \<Rightarrow> (if x = ReError then Inl (SystemExit (- 1)) else Inl (Uncaught x))
      | Inr output' \<Rightarrow> replace_loop e rest output')"

text \<open>Line 149: \<^verbatim>\<open>if args.replace is not None\<close>.\<close>

definition apply_replace :: "env \<Rightarrow> args \<Rightarrow> ustr \<Rightarrow> abort + ustr" where
  "apply_replace e a output =
     (case replace a of None \<Rightarrow> Inr output | Some pairs \<Rightarrow> replace_loop e pairs output)"

text \<open>
  What the same loop leaves on standard error: the warnings of every call of
  \<^verbatim>\<open>re.sub\<close> it makes, up to and including the first call that raises.
\<close>

fun replace_loop_warnings :: "env \<Rightarrow> (ustr \<times> ustr) list \<Rightarrow> ustr \<Rightarrow> ustr list" where
  "replace_loop_warnings e [] output = []"
| "replace_loop_warnings e (regex_tuple # rest) output =
     re_warnings e (fst regex_tuple) (snd regex_tuple) output @
     (case re_sub e (fst regex_tuple) (snd regex_tuple) output of
        Inl x \<Rightarrow> []
      | Inr output' \<Rightarrow> replace_loop_warnings e rest output')"

definition apply_replace_warnings :: "env \<Rightarrow> args \<Rightarrow> ustr \<Rightarrow> ustr list" where
  "apply_replace_warnings e a output =
     (case replace a of None \<Rightarrow> [] | Some pairs \<Rightarrow> replace_loop_warnings e pairs output)"

section \<open>Writing (\<^verbatim>\<open>write_enum_source_file\<close>, lines 126-140)\<close>

definition out_dir_message :: ustr where
  "out_dir_message =
     u ''One (or more) of the argument(s) given to --out-dir is not a directory.''"

text \<open>
  Lines 129-130: the loop of assertions, \<open>False\<close> when one of them fails (the
  \<^verbatim>\<open>AssertionError\<close> of line 131). The paths are strings, so \<^verbatim>\<open>path.isdir\<close> does not
  raise. Without \<open>debug\<close> the body of the loop is empty and nothing is checked.
\<close>

fun assert_dirs :: "env \<Rightarrow> ustr list \<Rightarrow> bool" where
  "assert_dirs e [] = True"
| "assert_dirs e (out_path # rest) = (if isdir e out_path then assert_dirs e rest else False)"

text \<open>
  \<^verbatim>\<open>with open(p, 'w+') as f: f.write(output)\<close>: the file is created or truncated and
  holds \<open>output\<close> afterwards; when \<^verbatim>\<open>open\<close> raises nothing is changed. The file is
  recorded as the text written to it: \<open>output\<close> is taken to be encodable in the
  locale's encoding, so that \<^verbatim>\<open>f.write\<close> does not raise after \<^verbatim>\<open>open\<close> succeeded.
\<close>

definition write_file :: "env \<Rightarrow> ustr \<Rightarrow> ustr \<Rightarrow> world \<Rightarrow> (abort + unit) \<times> world" where
  "write_file e p output w =
     (if can_open e p then (Inr (), w\<lparr>files := (files w)(p \<mapsto> output)\<rparr>)
      else (Inl (Uncaught OSError), w))"

text \<open>Lines 135-137: the loop over the output directories.\<close>

fun write_loop :: "env \<Rightarrow> ustr list \<Rightarrow> ustr \<Rightarrow> ustr \<Rightarrow> world \<Rightarrow> (abort + unit) \<times> world" where
  "write_loop e [] file output w = (Inr (), w)"
| "write_loop e (out_path # rest) file output w =
     (case write_file e (path_join out_path file) output w of
        (Inl x, w') \<Rightarrow> (Inl x, w')
      | (Inr _, w') \<Rightarrow> write_loop e rest file output w')"

definition write_enum_source_file ::
  "env \<Rightarrow> args \<Rightarrow> ustr \<Rightarrow> world \<Rightarrow> (abort + unit) \<times> world" where
  "write_enum_source_file e a output w =
     (case out_dir a of
        Some dirs \<Rightarrow>
          (if debug e \<and> \<not> assert_dirs e dirs
           then (Inl (SystemExit (- 1)), print out_dir_message w)
           else write_loop e dirs (output_file a) output w)
      | None \<Rightarrow> write_file e (path_join (get_script_path e) (output_file a)) output w)"

section \<open>The script (\<^verbatim>\<open>__main__\<close>, lines 142-156)\<close>

text \<open>
  Lines 146-156; \<open>a\<close> is the result of \<^verbatim>\<open>parser.parse_args()\<close>. The warnings of the
  replacement loop reach standard error before the loop ends, however it ends.
\<close>

definition main :: "env \<Rightarrow> args \<Rightarrow> world \<Rightarrow> (abort + unit) \<times> world" where
  "main e a w =
     (case get_template_sections a of
        (fhead, fprod, ftail, vhead, vprod, vtail) \<Rightarrow>
          (case create_enum_source e a fhead fprod ftail vhead vprod vtail w of
             (Inl x, w') \<Rightarrow> (Inl x, w')
           | (Inr output, w') \<Rightarrow>
               (let w'' = on_stderr (apply_replace_warnings e a output) w' in
                case apply_replace e a output of
                  Inl x \<Rightarrow> (Inl x, w'')
                | Inr output' \<Rightarrow> write_enum_source_file e a output' w'')))"

text \<open>
  The interpreter around the script: exit status 0 at the end of the file, the argument
  of \<^verbatim>\<open>sys.exit\<close> as an octet, and for an exception nobody caught a traceback on standard
  error and status 1.
\<close>

definition traceback :: "exn \<Rightarrow> ustr" where
  "traceback x = u ''Traceback (most recent call last):''"

definition run_script :: "env \<Rightarrow> args \<Rightarrow> world \<Rightarrow> int \<times> world" where
  "run_script e a w =
     (case main e a w of
        (Inr _, w') \<Rightarrow> (0, w')
      | (Inl (SystemExit n), w') \<Rightarrow> (n mod 256, w')
      | (Inl (Uncaught x), w') \<Rightarrow> (1, w'\<lparr>stderr := stderr w' @ [traceback x]\<rparr>))"

text \<open>
  The process from its command line (lines 143-144, then the rest): \<^verbatim>\<open>argparse\<close> ends
  the process itself when it prints the help or rejects the command line.
\<close>

definition script :: "env \<Rightarrow> ustr list \<Rightarrow> world \<Rightarrow> int \<times> world" where
  "script e argv w =
     (case parse_args e argv of
        Parsed a \<Rightarrow> run_script e a w
      | HelpRequested help \<Rightarrow> (0, print help w)
      | Rejected message \<Rightarrow> (2, on_stderr [message] w))"

text \<open>
  Lines 146 and 148 on their own: the templates are built and handed to
  \<^verbatim>\<open>create_enum_source\<close>. \<open>main\<close> is this step followed by the replacements and the
  writer (lemma \<open>main_generated\<close>).
\<close>

definition generated :: "env \<Rightarrow> args \<Rightarrow> world \<Rightarrow> (abort + ustr) \<times> world" where
  "generated e a w =
     (case get_template_sections a of
        (fhead, fprod, ftail, vhead, vprod, vtail) \<Rightarrow>
          create_enum_source e a fhead fprod ftail vhead vprod vtail w)"

section \<open>Reference definitions for the statements\<close>

text \<open>
  One \<^verbatim>\<open>#include\<close> directive, as the specification words it.
\<close>

definition include_directive :: "ustr \<Rightarrow> ustr" where
  \<open>include_directive name = u ''#include "'' @ name @ u ''"\<newline>''\<close>

text \<open>
  The argument vector of lines 64-71 when \<^verbatim>\<open>which\<close> found the executable \<open>g\<close>.
\<close>

definition generator_argv ::
  "ustr \<Rightarrow> ustr \<Rightarrow> ustr \<Rightarrow> ustr \<Rightarrow> ustr \<Rightarrow> ustr \<Rightarrow> ustr \<Rightarrow> ustr list \<Rightarrow> ustr list" where
  "generator_argv g fhead fprod ftail vhead vprod vtail paths =
     [g, u ''--fhead'', fhead, u ''--fprod'', fprod, u ''--ftail'', ftail,
      u ''--vhead'', vhead, u ''--vprod'', vprod, u ''--vtail'', vtail] @ paths"

text \<open>
  The specification's post-processor for an engine \<open>sub\<close> that always returns a
  text: every pair in turn, from the left, each on the result of the one before.
\<close>

definition sequential_substitution ::
  "(ustr \<Rightarrow> ustr \<Rightarrow> ustr \<Rightarrow> ustr) \<Rightarrow> (ustr \<times> ustr) list \<Rightarrow> ustr \<Rightarrow> ustr" where
  "sequential_substitution sub pairs text = foldl (\<lambda>t (p, r). sub p r t) text pairs"

text \<open>
  The files one run is asked to write (lines 135-136 and 139).
\<close>

definition output_paths :: "env \<Rightarrow> args \<Rightarrow> ustr list" where
  "output_paths e a =
     (case out_dir a of
        Some dirs \<Rightarrow> map (\<lambda>out_path. path_join out_path (output_file a)) dirs
      | None \<Rightarrow> [path_join (get_script_path e) (output_file a)])"

text \<open>
  The exception of the first call of \<^verbatim>\<open>re.sub\<close> that raises when the loop of lines
  150-154 runs over the pairs, \<open>None\<close> when every call returns.
\<close>

fun first_raise :: "env \<Rightarrow> (ustr \<times> ustr) list \<Rightarrow> ustr \<Rightarrow> exn option" where
  "first_raise e [] output = None"
| "first_raise e (regex_tuple # rest) output =
     (case re_sub e (fst regex_tuple) (snd regex_tuple) output of
        Inl x \<Rightarrow> Some x
      | Inr output' \<Rightarrow> first_raise e rest output')"

text \<open>
  What a step adds to the world, whatever the world was: files written over the old
  ones, lines on the two streams, subprocesses started. A step is an \<open>effect\<close> when its
  result and what it adds do not depend on the world it starts from.
\<close>

definition extend ::
  "(ustr \<rightharpoonup> ustr) \<Rightarrow> ustr list \<Rightarrow> ustr list \<Rightarrow> ustr list list \<Rightarrow> world \<Rightarrow> world" where
  "extend D S E P w =
     w\<lparr>files := files w ++ D, stdout := stdout w @ S, stderr := stderr w @ E,
       spawned := spawned w @ P\<rparr>"

definition effect :: "(world \<Rightarrow> 'r \<times> world) \<Rightarrow> bool" where
  "effect f = (\<exists>r D S E P. \<forall>w. f w = (r, extend D S E P w))"

section \<open>Concrete runs\<close>

text \<open>
  A small world for the concrete runs below: the directories \<^verbatim>\<open>/src\<close> and
  \<^verbatim>\<open>/out\<close> exist, the generator is installed, prints \<^verbatim>\<open>GT\<close> and is silent on its
  standard error, every file can be opened, assertions are enabled. The engine stands in
  for \<^verbatim>\<open>re.sub\<close>: it rejects the pattern \<^verbatim>\<open>(\<close> with \<^verbatim>\<open>re.error\<close>, as
  \<^verbatim>\<open>re.compile\<close> does, rejects the pattern \<^verbatim>\<open>a{99999999999}\<close> with
  \<^verbatim>\<open>OverflowError\<close>, as \<^verbatim>\<open>re.compile\<close> does, and takes any other pattern literally,
  replacing a text equal to it; it prints no warning. The parser stands in for
  \<^verbatim>\<open>argparse\<close>: it rejects the empty command line and returns \<open>demo_args\<close> for any
  other.
\<close>

definition demo_engine :: "ustr \<Rightarrow> ustr \<Rightarrow> ustr \<Rightarrow> exn + ustr" where
  "demo_engine p r t =
     (if p = u ''('' then Inl ReError
      else if p = u ''a{99999999999}'' then Inl OverflowError
      else Inr (if t = p then r else t))"

definition usage_message :: ustr where
  "usage_message = u ''error: the following arguments are required: output_file, --sources''"

definition demo_args :: args where
  "demo_args =
     \<lparr>output_file = u ''enums.c'', sources = [u ''a.h''], replace = None,
      source_dir = Some (u ''/src''), out_dir = Some [u ''/out'']\<rparr>"

definition demo_env :: env where
  "demo_env =
     \<lparr>isdir = (\<lambda>p. p = u ''/src'' \<or> p = u ''/out''),
      which = (\<lambda>name. if name = u ''glib-mkenums'' then Some (u ''/usr/bin/glib-mkenums'') else None),
      script_dir = u ''/tool'',
      spawn = (\<lambda>argv. Inr \<lparr>stdout_data = [0x47, 0x54], stderr_lines = [], returncode = 0\<rparr>),
      re_sub = demo_engine,
      re_warnings = (\<lambda>p r t. []),
      can_open = (\<lambda>p. True),
      debug = True,
      parse_args = (\<lambda>argv. if argv = [] then Rejected usage_message else Parsed demo_args)\<rparr>"

definition demo_world :: world where
  "demo_world = \<lparr>files = Map.empty, stdout = [], stderr = [], spawned = []\<rparr>"

definition stale_world :: world where
  "stale_world = demo_world\<lparr>files := [u ''/out/enums.c'' \<mapsto> u ''stale'']\<rparr>"

text \<open>
  A generator that prints \<^verbatim>\<open>GT\<close> and exits with status 1, one that prints the octet
  FF, and one that prints \<^verbatim>\<open>GT\<close> and complains on its standard error.
\<close>

definition failing_proc :: proc where
  "failing_proc = \<lparr>stdout_data = [0x47, 0x54], stderr_lines = [], returncode = 1\<rparr>"

definition garbage_proc :: proc where
  "garbage_proc = \<lparr>stdout_data = [0xFF], stderr_lines = [], returncode = 0\<rparr>"

definition noisy_proc :: proc where
  "noisy_proc =
     \<lparr>stdout_data = [0x47, 0x54], stderr_lines = [u ''a.h: no enums found''], returncode = 0\<rparr>"


definition noisy_env :: env where
  "noisy_env = demo_env\<lparr>spawn := (\<lambda>argv. Inr noisy_proc)\<rparr>"

text \<open>
  Invocations that differ from \<open>demo_args\<close> in one option: an unbalanced
  parenthesis among the patterns, alone or after a valid pair; a repetition count too
  large for the engine; a source directory and an output directory that do not exist.
\<close>

definition bad_pattern_args :: args where
  "bad_pattern_args =
     demo_args\<lparr>replace := Some [(u ''GTypeFoo'', u ''GTypeBar''), (u ''('', u ''x'')]\<rparr>"

definition lone_bad_pattern_args :: args where
  "lone_bad_pattern_args = demo_args\<lparr>replace := Some [(u ''('', u ''x'')]\<rparr>"

definition overflow_pattern_args :: args where
  "overflow_pattern_args = demo_args\<lparr>replace := Some [(u ''a{99999999999}'', u ''x'')]\<rparr>"

definition bad_source_args :: args where
  "bad_source_args = demo_args\<lparr>source_dir := Some (u ''/nowhere'')\<rparr>"

definition bad_out_args :: args where
  "bad_out_args = demo_args\<lparr>out_dir := Some [u ''/out'', u ''/missing'']\<rparr>"

section \<open>The file header\<close>

lemma fhead_loop_concat:
  "fhead_loop ss fhead = fhead @ concat (map include_directive ss)"
  by (induction ss arbitrary: fhead) (simp_all add: include_directive_def)

lemma fhead_section:
  "fst (get_template_sections a) = concat (map include_directive (sources a)) @ fhead_macros"
  by (simp add: get_template_sections_def fhead_loop_concat)

text \<open>
  Claim C8. For every source list the file header is the concatenation of one
  \<^verbatim>\<open>#include "<name>"\<close> line per source, in input order, followed by the block of the
  two macro definitions; for the list \<^verbatim>\<open>["a.h"]\<close> it is the line \<^verbatim>\<open>#include "a.h"\<close>
  followed by that block, spelled out character by character in the third equation.
\<close>

theorem file_header_includes_then_macros:
  \<open>fst (get_template_sections a) = concat (map include_directive (sources a)) @ fhead_macros
   \<and> fst (get_template_sections (a\<lparr>sources := [u ''a.h'']\<rparr>)) =
       u ''#include "a.h"\<newline>'' @ fhead_macros
   \<and> fst (get_template_sections (a\<lparr>sources := [u ''a.h'']\<rparr>)) =
       u (''#include "a.h"\<newline>'' @
          ''\<newline>'' @
          ''        #define C_ENUM(v) ((gint) v)\<newline>'' @
          ''        #define C_FLAGS(v) ((gint) v)\<newline>'' @
          ''    '')\<close>
proof -
  have general: "fst (get_template_sections a) =
      concat (map include_directive (sources a)) @ fhead_macros" for a
    by (rule fhead_section)
  have one: \<open>concat (map include_directive [u ''a.h'']) = u ''#include "a.h"\<newline>''\<close>
    by (simp add: include_directive_def u_def)
  have single: \<open>fst (get_template_sections (a\<lparr>sources := [u ''a.h'']\<rparr>)) =
      u ''#include "a.h"\<newline>'' @ fhead_macros\<close>
    unfolding general using one by simp
  have spelled: \<open>u ''#include "a.h"\<newline>'' @ fhead_macros =
      u (''#include "a.h"\<newline>'' @
          ''\<newline>'' @
          ''        #define C_ENUM(v) ((gint) v)\<newline>'' @
          ''        #define C_FLAGS(v) ((gint) v)\<newline>'' @
          ''    '')\<close>
    unfolding fhead_macros_def u_def by (simp only: map_append)
  show ?thesis
    using general [of a] single spelled by (simp only: simp_thms)
qed

section \<open>The generator stage\<close>

lemma path_isdir_None: "path_isdir e None = Inl TypeError"
  by (simp add: path_isdir_def)

lemma path_isdir_Some: "path_isdir e (Some d) = Inr (isdir e d)"
  by (simp add: path_isdir_def)

lemma create_enum_source_None:
  "source_dir a = None \<Longrightarrow> debug e \<Longrightarrow>
   create_enum_source e a fhead fprod ftail vhead vprod vtail w = (Inl (Uncaught TypeError), w)"
  by (simp add: create_enum_source_def path_isdir_None)

lemma create_enum_source_not_dir:
  "debug e \<Longrightarrow> source_dir a = Some d \<Longrightarrow> \<not> isdir e d \<Longrightarrow>
   create_enum_source e a fhead fprod ftail vhead vprod vtail w =
     (Inl (SystemExit (- 1)), print source_dir_message w)"
  by (simp add: create_enum_source_def path_isdir_Some)

lemma create_enum_source_no_tool:
  "source_dir a = Some d \<Longrightarrow> isdir e d \<Longrightarrow> which e (u ''glib-mkenums'') = None \<Longrightarrow>
   create_enum_source e a fhead fprod ftail vhead vprod vtail w = (Inl (Uncaught TypeError), w)"
  by (simp add: create_enum_source_def path_isdir_Some Popen_def)

lemma map_the_Some: "map the (map Some xs) = xs"
  by (induction xs) simp_all

lemma None_notin_Some: "None \<notin> Some ` A"
  by auto

lemma create_enum_source_ran:
  assumes "source_dir a = Some d" "isdir e d" "which e (u ''glib-mkenums'') = Some g"
    and "spawn e (generator_argv g fhead fprod ftail vhead vprod vtail
           (map (path_join d) (sources a))) = Inr p"
  shows "create_enum_source e a fhead fprod ftail vhead vprod vtail w =
     ((case utf8_decode (stdout_data p) of
         None \<Rightarrow> Inl (Uncaught UnicodeDecodeError) | Some text \<Rightarrow> Inr text),
      on_stderr (stderr_lines p)
        (w\<lparr>spawned := spawned w @ [generator_argv g fhead fprod ftail vhead vprod vtail
           (map (path_join d) (sources a))]\<rparr>))"
  using assms
  by (simp add: create_enum_source_def path_isdir_Some Popen_def communicate_def
      generator_argv_def map_the_Some None_notin_Some comp_def split: option.split)

lemma generated_ran:
  assumes "source_dir a = Some d" and "isdir e d"
    and "which e (u ''glib-mkenums'') = Some g"
    and "\<forall>argv. spawn e argv = Inr p"
    and "utf8_decode (stdout_data p) = Some out"
  shows "fst (generated e a w) = Inr out"
proof -
  obtain fh fp ft vh vp vt where T: "get_template_sections a = (fh, fp, ft, vh, vp, vt)"
    by (cases "get_template_sections a" rule: prod_cases6)
  let ?argv = "generator_argv g fh fp ft vh vp vt (map (path_join d) (sources a))"
  have sp: "spawn e ?argv = Inr p" using assms(4) by simp
  show ?thesis
    using create_enum_source_ran [OF assms(1-3) sp, of w] assms(5) T
    by (simp add: generated_def)
qed

lemma generated_files: "files (snd (generated e a w)) = files w"
  by (simp add: generated_def create_enum_source_def path_isdir_def Popen_def communicate_def
      print_def on_stderr_def Let_def split: option.split sum.split bool.split prod.split)

lemma generated_ok_stdout:
  "generated e a w = (Inr out, w') \<Longrightarrow> stdout w' = stdout w"
  by (auto simp add: generated_def create_enum_source_def path_isdir_def Popen_def
      communicate_def print_def on_stderr_def Let_def
      split: option.splits sum.splits bool.splits prod.splits if_splits)

lemma Popen_ok:
  "Popen e cmd w = (Inr p, w') \<Longrightarrow>
   spawn e (map the cmd) = Inr p \<and> stderr w' = stderr w \<and> stdout w' = stdout w"
  by (auto simp add: Popen_def split: if_splits sum.splits)

lemma generated_ok_stderr:
  assumes "generated e a w = (Inr out, w')"
  shows "\<exists>argv p. spawn e argv = Inr p \<and> stderr w' = stderr w @ stderr_lines p"
proof -
  obtain fh fp ft vh vp vt where T: "get_template_sections a = (fh, fp, ft, vh, vp, vt)"
    by (cases "get_template_sections a" rule: prod_cases6)
  with assms have c: "create_enum_source e a fh fp ft vh vp vt w = (Inr out, w')"
    by (simp add: generated_def)
  then obtain cmd p w1 where P: "Popen e cmd w = (Inr p, w1)"
    and w': "w' = on_stderr (stderr_lines p) w1"
    by (auto simp add: create_enum_source_def communicate_def Let_def
        split: option.splits sum.splits bool.splits prod.splits if_splits)
  from Popen_ok [OF P] w' have "spawn e (map the cmd) = Inr p"
    and "stderr w' = stderr w @ stderr_lines p"
    by (simp_all add: on_stderr_def)
  then show ?thesis by blast
qed

lemma generated_abort_shape:
  "generated e a w = (Inl x, w') \<Longrightarrow> x = SystemExit (- 1) \<or> (\<exists>y. x = Uncaught y)"
  by (auto simp add: generated_def create_enum_source_def path_isdir_def Popen_def
      communicate_def print_def on_stderr_def Let_def
      split: option.splits sum.splits bool.splits prod.splits if_splits)

lemma generated_ok_streams:
  assumes "fst (generated e a w) = Inr out"
  shows "stdout (snd (generated e a w)) = stdout w
    \<and> (\<exists>argv p. spawn e argv = Inr p
          \<and> stderr (snd (generated e a w)) = stderr w @ stderr_lines p)"
proof -
  from assms have "generated e a w = (Inr out, snd (generated e a w))"
    by (cases "generated e a w") simp
  from generated_ok_stdout [OF this] generated_ok_stderr [OF this] show ?thesis by simp
qed

lemma main_create_fails:
  assumes "get_template_sections a = (fhead, fprod, ftail, vhead, vprod, vtail)"
    and "create_enum_source e a fhead fprod ftail vhead vprod vtail w = (Inl x, w')"
  shows "main e a w = (Inl x, w')"
  using assms by (simp add: main_def)

lemma main_create_ok:
  assumes "get_template_sections a = (fhead, fprod, ftail, vhead, vprod, vtail)"
    and "create_enum_source e a fhead fprod ftail vhead vprod vtail w = (Inr text, w')"
  shows "main e a w =
     (case apply_replace e a text of
        Inl x \<Rightarrow> (Inl x, on_stderr (apply_replace_warnings e a text) w')
      | Inr output' \<Rightarrow>
          write_enum_source_file e a output' (on_stderr (apply_replace_warnings e a text) w'))"
  using assms by (simp add: main_def Let_def)

lemma run_script_uncaught:
  "main e a w = (Inl (Uncaught x), w') \<Longrightarrow>
   run_script e a w = (1, w'\<lparr>stderr := stderr w' @ [traceback x]\<rparr>)"
  by (simp add: run_script_def)

lemma run_script_exit:
  "main e a w = (Inl (SystemExit n), w') \<Longrightarrow> run_script e a w = (n mod 256, w')"
  by (simp add: run_script_def)

lemma run_script_ok:
  "main e a w = (Inr r, w') \<Longrightarrow> run_script e a w = (0, w')"
  by (simp add: run_script_def)

text \<open>
  Claim C1. The claim says that a run without \<^verbatim>\<open>--source-dir\<close> resolves the sources
  against the script's directory and proceeds. Under the interpreter as it is started by
  default (assertions enabled) the code does not get there: for every environment, every
  other argument and every world, \<^verbatim>\<open>path.isdir(None)\<close> on line 54 raises
  \<^verbatim>\<open>TypeError\<close>, which the \<^verbatim>\<open>except AssertionError\<close> does not catch; the run ends
  with a traceback and status 1, and lines 61-62 are never reached.
\<close>

theorem omitted_source_dir_raises_type_error:
  "create_enum_source (e\<lparr>debug := True\<rparr>) (a\<lparr>source_dir := None\<rparr>)
      fhead fprod ftail vhead vprod vtail w = (Inl (Uncaught TypeError), w)
   \<and> main (e\<lparr>debug := True\<rparr>) (a\<lparr>source_dir := None\<rparr>) w = (Inl (Uncaught TypeError), w)
   \<and> run_script (e\<lparr>debug := True\<rparr>) (a\<lparr>source_dir := None\<rparr>) w =
       (1, w\<lparr>stderr := stderr w @ [traceback TypeError]\<rparr>)"
proof -
  let ?a = "a\<lparr>source_dir := None\<rparr>"
  let ?e = "e\<lparr>debug := True\<rparr>"
  have none: "source_dir ?a = None" by simp
  have dbg: "debug ?e" by simp
  obtain fh fp ft vh vp vt where T: "get_template_sections ?a = (fh, fp, ft, vh, vp, vt)"
    by (cases "get_template_sections ?a" rule: prod_cases6)
  have m: "main ?e ?a w = (Inl (Uncaught TypeError), w)"
    by (rule main_create_fails [OF T create_enum_source_None [OF none dbg]])
  show ?thesis
    using create_enum_source_None [OF none dbg] m run_script_uncaught [OF m] by simp
qed

text \<open>
  Claim C2. The claim asks for an explicit ToolNotFound diagnostic when the generator
  is not on the search path. The code has none: with a valid source directory and
  \<^verbatim>\<open>which\<close> returning \<^verbatim>\<open>None\<close>, that \<^verbatim>\<open>None\<close> is passed to \<^verbatim>\<open>Popen\<close>, whose
  \<^verbatim>\<open>TypeError\<close> nobody catches. The run ends with a traceback and status 1; nothing is
  printed by the script and no subprocess is started.
\<close>

theorem missing_tool_raises_type_error:
  assumes "source_dir a = Some d" and "isdir e d" and "which e (u ''glib-mkenums'') = None"
  shows "main e a w = (Inl (Uncaught TypeError), w)
    \<and> run_script e a w = (1, w\<lparr>stderr := stderr w @ [traceback TypeError]\<rparr>)
    \<and> stdout (snd (run_script e a w)) = stdout w
    \<and> spawned (snd (run_script e a w)) = spawned w"
proof -
  obtain fh fp ft vh vp vt where T: "get_template_sections a = (fh, fp, ft, vh, vp, vt)"
    by (cases "get_template_sections a" rule: prod_cases6)
  have m: "main e a w = (Inl (Uncaught TypeError), w)"
    by (rule main_create_fails [OF T create_enum_source_no_tool [OF assms]])
  show ?thesis
    using m run_script_uncaught [OF m] by simp
qed

theorem missing_tool_raises_type_error_witness:
  "main (demo_env\<lparr>which := \<lambda>name. None\<rparr>) demo_args demo_world = (Inl (Uncaught TypeError), demo_world)
   \<and> fst (run_script (demo_env\<lparr>which := \<lambda>name. None\<rparr>) demo_args demo_world) = 1
   \<and> stderr (snd (run_script (demo_env\<lparr>which := \<lambda>name. None\<rparr>) demo_args demo_world)) =
        [traceback TypeError]
   \<and> stdout (snd (run_script (demo_env\<lparr>which := \<lambda>name. None\<rparr>) demo_args demo_world)) = []
   \<and> spawned (snd (run_script (demo_env\<lparr>which := \<lambda>name. None\<rparr>) demo_args demo_world)) = []"
proof -
  have 1: "source_dir demo_args = Some (u ''/src'')" by (simp add: demo_args_def)
  have 2: "isdir (demo_env\<lparr>which := \<lambda>name. None\<rparr>) (u ''/src'')" by (simp add: demo_env_def)
  have 3: "which (demo_env\<lparr>which := \<lambda>name. None\<rparr>) (u ''glib-mkenums'') = None" by simp
  show ?thesis
    using missing_tool_raises_type_error [OF 1 2 3, of demo_world]
    by (simp add: demo_world_def)
qed

lemma apply_replace_None: "replace a = None \<Longrightarrow> apply_replace e a text = Inr text"
  by (simp add: apply_replace_def)

lemma write_default:
  "out_dir a = None \<Longrightarrow> can_open e (path_join (script_dir e) (output_file a)) \<Longrightarrow>
   write_enum_source_file e a text w =
     (Inr (), w\<lparr>files := (files w)(path_join (script_dir e) (output_file a) \<mapsto> text)\<rparr>)"
  by (simp add: write_enum_source_file_def write_file_def get_script_path_def)

text \<open>
  Claim C3. The claim says that a generator exiting with a failure status makes the
  run fail and leaves no output file. The code never reads the exit status: whenever the
  generator's output decodes, the run succeeds with status 0 and the output is written,
  here with no replacements and the default directory, whatever non-zero status the
  generator returned.
\<close>

theorem failed_generator_output_is_written:
  assumes "source_dir a = Some d" and "isdir e d"
    and "which e (u ''glib-mkenums'') = Some g"
    and "\<forall>argv. spawn e argv = Inr p"
    and "returncode p \<noteq> 0"
    and "utf8_decode (stdout_data p) = Some text"
    and "replace a = None" and "out_dir a = None"
    and "can_open e (path_join (script_dir e) (output_file a))"
  shows "fst (main e a w) = Inr ()
    \<and> fst (run_script e a w) = 0
    \<and> files (snd (main e a w)) (path_join (script_dir e) (output_file a)) = Some text"
proof -
  obtain fh fp ft vh vp vt where T: "get_template_sections a = (fh, fp, ft, vh, vp, vt)"
    by (cases "get_template_sections a" rule: prod_cases6)
  let ?argv = "generator_argv g fh fp ft vh vp vt (map (path_join d) (sources a))"
  have sp: "spawn e ?argv = Inr p" using assms(4) by simp
  let ?w1 = "on_stderr (stderr_lines p) (w\<lparr>spawned := spawned w @ [?argv]\<rparr>)"
  let ?w2 = "on_stderr (apply_replace_warnings e a text) ?w1"
  have c: "create_enum_source e a fh fp ft vh vp vt w = (Inr text, ?w1)"
    using create_enum_source_ran [OF assms(1-3) sp, of w] assms(6) by simp
  have m: "main e a w =
      (Inr (), ?w2\<lparr>files := (files ?w2)(path_join (script_dir e) (output_file a) \<mapsto> text)\<rparr>)"
    using main_create_ok [OF T c] apply_replace_None [OF assms(7), of e "text"]
      write_default [OF assms(8,9), of "text" ?w2]
    by simp
  show ?thesis using m run_script_ok [OF m] by simp
qed

theorem failed_generator_output_is_written_witness:
  "returncode failing_proc = 1
   \<and> fst (main (demo_env\<lparr>spawn := \<lambda>argv. Inr failing_proc\<rparr>)
          (demo_args\<lparr>out_dir := None\<rparr>) demo_world) = Inr ()
   \<and> fst (run_script (demo_env\<lparr>spawn := \<lambda>argv. Inr failing_proc\<rparr>)
          (demo_args\<lparr>out_dir := None\<rparr>) demo_world) = 0
   \<and> files (snd (main (demo_env\<lparr>spawn := \<lambda>argv. Inr failing_proc\<rparr>)
          (demo_args\<lparr>out_dir := None\<rparr>) demo_world)) (u ''/tool/enums.c'') = Some [71, 84]"
proof -
  let ?e = "demo_env\<lparr>spawn := \<lambda>argv. Inr failing_proc\<rparr>"
  let ?a = "demo_args\<lparr>out_dir := None\<rparr>"
  have 1: "source_dir ?a = Some (u ''/src'')" by (simp add: demo_args_def)
  have 2: "isdir ?e (u ''/src'')" by (simp add: demo_env_def)
  have 3: "which ?e (u ''glib-mkenums'') = Some (u ''/usr/bin/glib-mkenums'')"
    by (simp add: demo_env_def)
  have 4: "\<forall>argv. spawn ?e argv = Inr failing_proc" by simp
  have 5: "returncode failing_proc \<noteq> 0" by (simp add: failing_proc_def)
  have 6: "utf8_decode (stdout_data failing_proc) = Some [71, 84]"
    by (simp add: failing_proc_def)
  have 7: "replace ?a = None" by (simp add: demo_args_def)
  have 8: "out_dir ?a = None" by simp
  have 9: "can_open ?e (path_join (script_dir ?e) (output_file ?a))" by (simp add: demo_env_def)
  have p: "path_join (script_dir ?e) (output_file ?a) = u ''/tool/enums.c''"
    by (simp add: demo_env_def demo_args_def path_join_def u_def)
  show ?thesis
    using failed_generator_output_is_written [OF 1 2 3 4 5 6 7 8 9, of demo_world]
    unfolding p by (simp add: failing_proc_def)
qed

lemma utf8_decode_examples:
  "utf8_decode [0x47, 0x54] = Some [71, 84]"
  "utf8_decode [0xC3, 0xA9] = Some [233]"
  "utf8_decode [0xE2, 0x82, 0xAC] = Some [8364]"
  "utf8_decode [0xF0, 0x9F, 0x98, 0x80] = Some [128512]"
  "utf8_decode [0xC0, 0x80] = None"
  "utf8_decode [0xED, 0xA0, 0x80] = None"
  "utf8_decode [0xF4, 0x90, 0x80, 0x80] = None"
  "utf8_decode [0x41, 0xC3] = None"
  by (simp_all add: between_def tail6_def second_lo_def second_hi_def)

text \<open>
  Claim C10. Line 76 decodes the captured output as UTF-8 with no error handler.
  Whenever the generator ran and its output is not well-formed UTF-8, the run ends with
  an uncaught \<^verbatim>\<open>UnicodeDecodeError\<close>: a traceback on standard error, after whatever the
  generator wrote there, status 1, no file written. The octet FF alone is such an output (see the concrete run after the
  theorem).
\<close>

theorem undecodable_output_raises_unicode_error:
  assumes "source_dir a = Some d" and "isdir e d"
    and "which e (u ''glib-mkenums'') = Some g"
    and "\<forall>argv. spawn e argv = Inr p"
    and "utf8_decode (stdout_data p) = None"
  shows "fst (main e a w) = Inl (Uncaught UnicodeDecodeError)
    \<and> fst (run_script e a w) = 1
    \<and> stderr (snd (run_script e a w)) =
        stderr w @ stderr_lines p @ [traceback UnicodeDecodeError]
    \<and> files (snd (run_script e a w)) = files w"
proof -
  obtain fh fp ft vh vp vt where T: "get_template_sections a = (fh, fp, ft, vh, vp, vt)"
    by (cases "get_template_sections a" rule: prod_cases6)
  let ?argv = "generator_argv g fh fp ft vh vp vt (map (path_join d) (sources a))"
  have sp: "spawn e ?argv = Inr p" using assms(4) by simp
  let ?w1 = "on_stderr (stderr_lines p) (w\<lparr>spawned := spawned w @ [?argv]\<rparr>)"
  have c: "create_enum_source e a fh fp ft vh vp vt w = (Inl (Uncaught UnicodeDecodeError), ?w1)"
    using create_enum_source_ran [OF assms(1-3) sp, of w] assms(5) by simp
  have m: "main e a w = (Inl (Uncaught UnicodeDecodeError), ?w1)"
    by (rule main_create_fails [OF T c])
  show ?thesis using m run_script_uncaught [OF m] by (simp add: on_stderr_def)
qed

theorem undecodable_output_raises_unicode_error_witness:
  "utf8_decode [0xFF] = None
   \<and> fst (main (demo_env\<lparr>spawn := \<lambda>argv. Inr garbage_proc\<rparr>) demo_args demo_world) =
       Inl (Uncaught UnicodeDecodeError)
   \<and> fst (run_script (demo_env\<lparr>spawn := \<lambda>argv. Inr garbage_proc\<rparr>) demo_args demo_world) = 1
   \<and> stderr (snd (run_script (demo_env\<lparr>spawn := \<lambda>argv. Inr garbage_proc\<rparr>) demo_args
        demo_world)) = [traceback UnicodeDecodeError]
   \<and> files (snd (run_script (demo_env\<lparr>spawn := \<lambda>argv. Inr garbage_proc\<rparr>) demo_args
        demo_world)) (u ''/out/enums.c'') = None"
proof -
  let ?e = "demo_env\<lparr>spawn := \<lambda>argv. Inr garbage_proc\<rparr>"
  have 1: "source_dir demo_args = Some (u ''/src'')" by (simp add: demo_args_def)
  have 2: "isdir ?e (u ''/src'')" by (simp add: demo_env_def)
  have 3: "which ?e (u ''glib-mkenums'') = Some (u ''/usr/bin/glib-mkenums'')"
    by (simp add: demo_env_def)
  have 4: "\<forall>argv. spawn ?e argv = Inr garbage_proc" by simp
  have 5: "utf8_decode (stdout_data garbage_proc) = None" by (simp add: garbage_proc_def)
  have 6: "utf8_decode [0xFF] = None" by simp
  have 7: "stderr_lines garbage_proc = []" by (simp add: garbage_proc_def)
  have 8: "stderr demo_world = [] \<and> files demo_world (u ''/out/enums.c'') = None"
    by (simp add: demo_world_def)
  from undecodable_output_raises_unicode_error [OF 1 2 3 4 5, of demo_world]
  have "fst (main ?e demo_args demo_world) = Inl (Uncaught UnicodeDecodeError)"
    and "fst (run_script ?e demo_args demo_world) = 1"
    and "stderr (snd (run_script ?e demo_args demo_world)) =
      stderr demo_world @ stderr_lines garbage_proc @ [traceback UnicodeDecodeError]"
    and "files (snd (run_script ?e demo_args demo_world)) = files demo_world"
    by blast+
  with 6 7 8 show ?thesis by simp
qed

section \<open>The replacements\<close>

lemma replace_loop_total_engine:
  "replace_loop (e\<lparr>re_sub := \<lambda>p r t. Inr (sub p r t)\<rparr>) pairs out =
     Inr (sequential_substitution sub pairs out)"
  by (induction pairs arbitrary: out)
     (simp_all add: sequential_substitution_def split_beta)

lemma replace_loop_snoc:
  "replace_loop e (pairs @ [(p, r)]) out =
     (case replace_loop e pairs out of
        Inl x \<Rightarrow> Inl x
      | Inr t \<Rightarrow>
          (case re_sub e p r t of
             Inl x \<Rightarrow> (if x = ReError then Inl (SystemExit (- 1)) else Inl (Uncaught x))
           | Inr t' \<Rightarrow> Inr t'))"
  by (induction pairs arbitrary: out) (simp_all split: sum.split)

lemma sequential_substitution_sees_renamed_text:
  "sequential_substitution (\<lambda>p r t. if t = p then r else t)
   [(u ''GTypeFoo'', u ''GTypeBar''), (u ''GTypeBar'', u ''Done'')] (u ''GTypeFoo'') = u ''Done''"
  by (simp add: sequential_substitution_def u_def)

text \<open>
  Claim C4. For every text and every list of pairs the post-processed text is the
  left-to-right sequential substitution: with an engine that always returns a text the
  result is \<open>sequential_substitution\<close> of the list (the empty list when \<^verbatim>\<open>--replace\<close> is
  absent); with any engine, a list extended by one pair applies that pair to the result
  of the list before it, and passes on a failure of the list before it; the empty list
  and the absent list leave the text unchanged.
\<close>

theorem replacements_apply_in_order:
  "apply_replace (e\<lparr>re_sub := \<lambda>p r t. Inr (sub p r t)\<rparr>) a text =
     Inr (sequential_substitution sub (case replace a of None \<Rightarrow> [] | Some pairs \<Rightarrow> pairs) text)
   \<and> apply_replace e (a\<lparr>replace := Some (pairs @ [(p, r)])\<rparr>) text =
       (case apply_replace e (a\<lparr>replace := Some pairs\<rparr>) text of
          Inl x \<Rightarrow> Inl x
        | Inr t \<Rightarrow>
            (case re_sub e p r t of
               Inl x \<Rightarrow> (if x = ReError then Inl (SystemExit (- 1)) else Inl (Uncaught x))
             | Inr t' \<Rightarrow> Inr t'))
   \<and> apply_replace e (a\<lparr>replace := Some []\<rparr>) text = Inr text
   \<and> apply_replace e (a\<lparr>replace := None\<rparr>) text = Inr text"
proof -
  have total: "apply_replace (e\<lparr>re_sub := \<lambda>p r t. Inr (sub p r t)\<rparr>) a text =
     Inr (sequential_substitution sub (case replace a of None \<Rightarrow> [] | Some pairs \<Rightarrow> pairs) text)"
    by (cases "replace a")
       (simp_all add: apply_replace_def replace_loop_total_engine sequential_substitution_def)
  have snoc: "apply_replace e (a\<lparr>replace := Some (pairs @ [(p, r)])\<rparr>) text =
       (case apply_replace e (a\<lparr>replace := Some pairs\<rparr>) text of
          Inl x \<Rightarrow> Inl x
        | Inr t \<Rightarrow>
            (case re_sub e p r t of
               Inl x \<Rightarrow> (if x = ReError then Inl (SystemExit (- 1)) else Inl (Uncaught x))
             | Inr t' \<Rightarrow> Inr t'))"
    by (simp add: apply_replace_def replace_loop_snoc)
  have nil: "apply_replace e (a\<lparr>replace := Some []\<rparr>) text = Inr text"
    by (simp add: apply_replace_def)
  have none: "apply_replace e (a\<lparr>replace := None\<rparr>) text = Inr text"
    by (simp add: apply_replace_def)
  from total snoc nil none show ?thesis by (simp only: simp_thms)
qed

lemma replace_loop_abort_shape:
  "replace_loop e pairs out = Inl x \<Longrightarrow> x = SystemExit (- 1) \<or> (\<exists>y. x = Uncaught y)"
  by (induction pairs arbitrary: out) (auto split: sum.splits if_splits)

lemma apply_replace_abort_shape:
  "apply_replace e a out = Inl x \<Longrightarrow> x = SystemExit (- 1) \<or> (\<exists>y. x = Uncaught y)"
  by (auto simp add: apply_replace_def dest: replace_loop_abort_shape split: option.splits)

lemma first_raise_rejected:
  "(p, r) \<in> set pairs \<Longrightarrow> \<forall>r' t. \<exists>x. re_sub e p r' t = Inl x \<Longrightarrow>
   \<exists>x. first_raise e pairs out = Some x"
proof (induction pairs arbitrary: out)
  case Nil
  then show ?case by simp
next
  case (Cons q rest)
  show ?case
  proof (cases "re_sub e (fst q) (snd q) out")
    case (Inl x)
    then show ?thesis by simp
  next
    case (Inr out')
    from Cons.prems(2) obtain x where "re_sub e p r out = Inl x" by blast
    with Inr have "q \<noteq> (p, r)" by auto
    with Cons.prems(1) have "(p, r) \<in> set rest" by simp
    from Cons.IH [OF this Cons.prems(2), of out'] Inr show ?thesis by simp
  qed
qed

lemma replace_loop_first_raise:
  "first_raise e pairs out = Some x \<Longrightarrow>
   replace_loop e pairs out = Inl (if x = ReError then SystemExit (- 1) else Uncaught x)"
  by (induction pairs arbitrary: out) (auto split: sum.splits)

section \<open>The writer\<close>

lemma assert_dirs_iff: "assert_dirs e dirs = (\<forall>d \<in> set dirs. isdir e d)"
  by (induction dirs) simp_all

lemma write_bad_out_dir:
  "debug e \<Longrightarrow> out_dir a = Some dirs \<Longrightarrow> d \<in> set dirs \<Longrightarrow> \<not> isdir e d \<Longrightarrow>
   write_enum_source_file e a out w = (Inl (SystemExit (- 1)), print out_dir_message w)"
  by (auto simp add: write_enum_source_file_def assert_dirs_iff)

lemma write_loop_abort_shape:
  "write_loop e dirs file out w = (Inl x, w') \<Longrightarrow> x = Uncaught OSError"
  by (induction dirs arbitrary: w)
     (auto simp add: write_file_def split: prod.splits sum.splits if_splits)

lemma write_abort_shape:
  "write_enum_source_file e a out w = (Inl x, w') \<Longrightarrow>
   x = SystemExit (- 1) \<or> (\<exists>y. x = Uncaught y)"
  by (auto simp add: write_enum_source_file_def write_file_def dest: write_loop_abort_shape
      split: option.splits if_splits)

lemma write_loop_keeps:
  "files w p = Some out \<Longrightarrow> files (snd (write_loop e dirs file out w)) p = Some out"
  by (induction dirs arbitrary: w)
     (auto simp add: write_file_def split: prod.splits sum.splits if_splits)

lemma write_loop_written:
  "write_loop e dirs file out w = (Inr r, w') \<Longrightarrow> d \<in> set dirs \<Longrightarrow>
   files w' (path_join d file) = Some out"
proof (induction dirs arbitrary: w)
  case Nil
  then show ?case by simp
next
  case (Cons d0 rest)
  from Cons.prems(1) have op: "can_open e (path_join d0 file)"
    by (auto simp add: write_file_def split: if_splits)
  let ?w1 = "w\<lparr>files := (files w)(path_join d0 file \<mapsto> out)\<rparr>"
  from Cons.prems(1) op have rest: "write_loop e rest file out ?w1 = (Inr r, w')"
    by (simp add: write_file_def)
  show ?case
  proof (cases "d = d0")
    case True
    have "files ?w1 (path_join d0 file) = Some out" by simp
    from write_loop_keeps [OF this, of e rest "file"] rest True show ?thesis by simp
  next
    case False
    with Cons.prems(2) have "d \<in> set rest" by simp
    from Cons.IH [OF rest this] show ?thesis .
  qed
qed

lemma write_ok_written:
  assumes "write_enum_source_file e a out w = (Inr r, w')" and "p \<in> set (output_paths e a)"
  shows "files w' p = Some out"
proof (cases "out_dir a")
  case None
  with assms show ?thesis
    by (auto simp add: write_enum_source_file_def write_file_def output_paths_def
        split: if_splits)
next
  case (Some dirs)
  with assms(1) have loop: "write_loop e dirs (output_file a) out w = (Inr r, w')"
    by (simp add: write_enum_source_file_def split: if_splits)
  from Some assms(2) obtain d where "d \<in> set dirs" and "p = path_join d (output_file a)"
    by (auto simp add: output_paths_def)
  with write_loop_written [OF loop] show ?thesis by simp
qed

lemma write_loop_ok:
  "\<forall>d \<in> set dirs. can_open e (path_join d file) \<Longrightarrow>
   fst (write_loop e dirs file out w) = Inr ()"
  by (induction dirs arbitrary: w) (simp_all add: write_file_def)

section \<open>The whole run\<close>

lemma main_generated:
  "main e a w =
     (case generated e a w of
        (Inl x, w') \<Rightarrow> (Inl x, w')
      | (Inr out, w') \<Rightarrow>
          (case apply_replace e a out of
             Inl x \<Rightarrow> (Inl x, on_stderr (apply_replace_warnings e a out) w')
           | Inr out' \<Rightarrow>
               write_enum_source_file e a out' (on_stderr (apply_replace_warnings e a out) w')))"
  by (simp add: main_def generated_def Let_def split: prod.split sum.split)

lemma files_on_stderr: "files (on_stderr ls w) = files w"
  by (simp add: on_stderr_def)

lemma main_replace_fails:
  assumes "fst (generated e a w) = Inr out" and "apply_replace e a out = Inl x"
  shows "main e a w =
     (Inl x, on_stderr (apply_replace_warnings e a out) (snd (generated e a w)))"
  using assms by (cases "generated e a w") (simp add: main_generated)

lemma main_never_replaced:
  assumes "\<And>out. \<exists>x. apply_replace e a out = Inl x"
  shows "(\<exists>x. fst (main e a w) = Inl x) \<and> files (snd (main e a w)) = files w"
proof (cases "generated e a w")
  case (Pair g w1)
  have fr: "files w1 = files w" using generated_files [of e a w] Pair by simp
  show ?thesis
  proof (cases g)
    case (Inl x1)
    with Pair fr show ?thesis by (simp add: main_generated)
  next
    case (Inr out)
    from assms [of out] obtain x where "apply_replace e a out = Inl x" by blast
    with Pair Inr fr show ?thesis by (simp add: main_generated files_on_stderr)
  qed
qed

lemma main_abort_shape:
  assumes "fst (main e a w) = Inl x"
  shows "x = SystemExit (- 1) \<or> (\<exists>y. x = Uncaught y)"
proof (cases "generated e a w")
  case (Pair r w1)
  show ?thesis
  proof (cases r)
    case (Inl x1)
    with Pair assms have "x1 = x" by (simp add: main_generated)
    with Pair Inl show ?thesis using generated_abort_shape by blast
  next
    case (Inr out)
    let ?w2 = "on_stderr (apply_replace_warnings e a out) w1"
    show ?thesis
    proof (cases "apply_replace e a out")
      case (Inl x2)
      with Pair Inr assms have "x2 = x" by (simp add: main_generated)
      with Inl show ?thesis using apply_replace_abort_shape by blast
    next
      case Inr': (Inr out')
      with Pair Inr assms have "fst (write_enum_source_file e a out' ?w2) = Inl x"
        by (simp add: main_generated)
      then show ?thesis
        using write_abort_shape [of e a out' ?w2 x "snd (write_enum_source_file e a out' ?w2)"]
        by (cases "write_enum_source_file e a out' ?w2") simp
    qed
  qed
qed

lemma run_script_failure_status:
  assumes "fst (main e a w) = Inl x"
  shows "fst (run_script e a w) = 255 \<or> fst (run_script e a w) = 1"
proof -
  from main_abort_shape [OF assms] consider "x = SystemExit (- 1)" | y where "x = Uncaught y"
    by blast
  then show ?thesis
  proof cases
    case 1
    with assms show ?thesis by (cases "main e a w") (simp add: run_script_def)
  next
    case 2
    with assms show ?thesis by (cases "main e a w") (simp add: run_script_def)
  qed
qed

lemma run_script_files: "files (snd (run_script e a w)) = files (snd (main e a w))"
  by (cases "main e a w") (simp add: run_script_def split: sum.split abort.split)


lemma main_ok_written:
  assumes "fst (main e a w) = Inr r"
  shows "\<exists>out out'. fst (generated e a w) = Inr out \<and> apply_replace e a out = Inr out'
     \<and> (\<forall>p \<in> set (output_paths e a). files (snd (main e a w)) p = Some out')"
proof (cases "generated e a w")
  case (Pair g w1)
  show ?thesis
  proof (cases g)
    case (Inl x)
    with Pair assms show ?thesis by (simp add: main_generated)
  next
    case (Inr out)
    let ?w2 = "on_stderr (apply_replace_warnings e a out) w1"
    show ?thesis
    proof (cases "apply_replace e a out")
      case (Inl x)
      with Pair Inr assms show ?thesis by (simp add: main_generated)
    next
      case Inr': (Inr out')
      with Pair Inr have m: "main e a w = write_enum_source_file e a out' ?w2"
        by (simp add: main_generated)
      with assms have "write_enum_source_file e a out' ?w2 = (Inr r, snd (main e a w))"
        by (cases "write_enum_source_file e a out' ?w2") simp
      from write_ok_written [OF this] Pair Inr Inr' show ?thesis by simp
    qed
  qed
qed

lemma main_success:
  assumes "fst (generated e a w) = Inr out" and "apply_replace e a out = Inr out'"
    and "out_dir a = Some dirs" and "\<forall>d \<in> set dirs. isdir e d" and "\<forall>p. can_open e p"
  shows "fst (main e a w) = Inr ()"
    and "p \<in> set (output_paths e a) \<Longrightarrow> files (snd (main e a w)) p = Some out'"
proof -
  from assms(1) obtain w1 where g: "generated e a w = (Inr out, w1)"
    by (cases "generated e a w") simp
  have m: "main e a w =
      write_loop e dirs (output_file a) out' (on_stderr (apply_replace_warnings e a out) w1)"
    using g assms(2-4) by (simp add: main_generated write_enum_source_file_def assert_dirs_iff)
  show ok: "fst (main e a w) = Inr ()"
    unfolding m using assms(5) by (simp add: write_loop_ok)
  from main_ok_written [OF ok] assms(1,2)
  show "p \<in> set (output_paths e a) \<Longrightarrow> files (snd (main e a w)) p = Some out'"
    by auto
qed

lemma run_bad_source_dir:
  assumes "debug e" and "source_dir a = Some d" and "\<not> isdir e d"
  shows "run_script e a w = (255, print source_dir_message w)"
proof -
  obtain fh fp ft vh vp vt where T: "get_template_sections a = (fh, fp, ft, vh, vp, vt)"
    by (cases "get_template_sections a" rule: prod_cases6)
  have "main e a w = (Inl (SystemExit (- 1)), print source_dir_message w)"
    by (rule main_create_fails [OF T create_enum_source_not_dir [OF assms]])
  from run_script_exit [OF this] show ?thesis by simp
qed

lemma run_bad_out_dir:
  assumes "debug e" and "fst (generated e a w) = Inr out" and "apply_replace e a out = Inr out'"
    and "out_dir a = Some dirs" and "d \<in> set dirs" and "\<not> isdir e d"
  shows "run_script e a w =
     (255, print out_dir_message
             (on_stderr (apply_replace_warnings e a out) (snd (generated e a w))))"
proof -
  have "main e a w =
     (Inl (SystemExit (- 1)),
      print out_dir_message (on_stderr (apply_replace_warnings e a out) (snd (generated e a w))))"
    using assms(2,3) write_bad_out_dir [OF assms(1) assms(4-6)]
    by (cases "generated e a w") (simp add: main_generated)
  from run_script_exit [OF this] show ?thesis by simp
qed

lemma run_replace_exit:
  assumes "fst (generated e a w) = Inr out" and "apply_replace e a out = Inl (SystemExit n)"
  shows "run_script e a w =
     (255, on_stderr (apply_replace_warnings e a out) (snd (generated e a w)))"
proof -
  from apply_replace_abort_shape [OF assms(2)] have n: "n = - 1" by simp
  from run_script_exit [OF main_replace_fails [OF assms]] n show ?thesis by simp
qed

lemma run_replace_uncaught:
  assumes "fst (generated e a w) = Inr out" and "apply_replace e a out = Inl (Uncaught x)"
  shows "fst (run_script e a w) = 1"
  using run_script_uncaught [OF main_replace_fails [OF assms]] by simp

lemma script_parsed: "parse_args e argv = Parsed a \<Longrightarrow> script e argv w = run_script e a w"
  by (simp add: script_def)

lemma script_rejected:
  "parse_args e argv = Rejected message \<Longrightarrow> script e argv w = (2, on_stderr [message] w)"
  by (simp add: script_def)

lemma streams_print:
  "stdout (print m w) = stdout w @ [m] \<and> stderr (print m w) = stderr w"
  by (simp add: print_def)

lemma streams_on_stderr:
  "stdout (on_stderr ls w) = stdout w \<and> stderr (on_stderr ls w) = stderr w @ ls"
  by (simp add: on_stderr_def)

subsection \<open>Facts about the concrete runs\<close>

lemma demo_generated:
  assumes "source_dir a = Some (u ''/src'')"
  shows "fst (generated demo_env a w) = Inr [71, 84]"
proof -
  have 2: "isdir demo_env (u ''/src'')" by (simp add: demo_env_def)
  have 3: "which demo_env (u ''glib-mkenums'') = Some (u ''/usr/bin/glib-mkenums'')"
    by (simp add: demo_env_def)
  have 4: "\<forall>argv. spawn demo_env argv =
      Inr \<lparr>stdout_data = [0x47, 0x54], stderr_lines = [], returncode = 0\<rparr>"
    by (simp add: demo_env_def)
  have 5: "utf8_decode (stdout_data
      \<lparr>stdout_data = [0x47, 0x54], stderr_lines = [], returncode = 0\<rparr>) = Some [71, 84]"
    by simp
  show ?thesis by (rule generated_ran [OF assms 2 3 4 5])
qed

lemma demo_generated_streams:
  assumes "source_dir a = Some (u ''/src'')"
  shows "stdout (snd (generated demo_env a w)) = stdout w
    \<and> stderr (snd (generated demo_env a w)) = stderr w"
proof -
  from generated_ok_streams [OF demo_generated [OF assms, of w]]
  obtain argv p where "stdout (snd (generated demo_env a w)) = stdout w"
    and "spawn demo_env argv = Inr p"
    and "stderr (snd (generated demo_env a w)) = stderr w @ stderr_lines p"
    by blast
  then show ?thesis by (auto simp add: demo_env_def)
qed


lemma noisy_generated:
  assumes "source_dir a = Some (u ''/src'')"
  shows "fst (generated (noisy_env\<lparr>parse_args := f\<rparr>) a w) = Inr [71, 84]"
proof -
  let ?e = "noisy_env\<lparr>parse_args := f\<rparr>"
  have 2: "isdir ?e (u ''/src'')" by (simp add: noisy_env_def demo_env_def)
  have 3: "which ?e (u ''glib-mkenums'') = Some (u ''/usr/bin/glib-mkenums'')"
    by (simp add: noisy_env_def demo_env_def)
  have 4: "\<forall>argv. spawn ?e argv = Inr noisy_proc" by (simp add: noisy_env_def)
  have 5: "utf8_decode (stdout_data noisy_proc) = Some [71, 84]" by (simp add: noisy_proc_def)
  show ?thesis by (rule generated_ran [OF assms 2 3 4 5])
qed

lemma demo_out_path: "path_join (u ''/out'') (u ''enums.c'') = u ''/out/enums.c''"
  by (simp add: path_join_def u_def)


lemma demo_lone_bad_pattern:
  "apply_replace demo_env lone_bad_pattern_args out = Inl (SystemExit (- 1))"
  by (simp add: apply_replace_def lone_bad_pattern_args_def demo_env_def demo_engine_def)

lemma demo_no_warnings: "apply_replace_warnings demo_env a out = []"
proof -
  have "replace_loop_warnings demo_env pairs t = []" for pairs t
    by (induction pairs arbitrary: t) (simp_all add: demo_env_def split: sum.split)
  then show ?thesis by (simp add: apply_replace_warnings_def split: option.split)
qed

lemma demo_bad_source: "source_dir bad_source_args = Some (u ''/nowhere'')"
  by (simp add: bad_source_args_def)

lemma demo_nowhere: "\<not> isdir demo_env (u ''/nowhere'')"
  by (simp add: demo_env_def u_def)

lemma demo_debug: "debug demo_env"
  by (simp add: demo_env_def)

lemma demo_world_streams: "stdout demo_world = [] \<and> stderr demo_world = []"
  by (simp add: demo_world_def)


subsection \<open>Output directories\<close>




subsection \<open>Invalid patterns\<close>

text \<open>
  Claim C6. When the engine rejects some \<^verbatim>\<open>--replace\<close> pattern, that is, \<^verbatim>\<open>re.sub\<close>
  raises for it whatever the replacement and the text, the run fails, its exit status is
  not zero and no file is written. Once the generator stage has produced its text, the
  run ends in the replacement loop, at the first call of \<^verbatim>\<open>re.sub\<close> that raises: with
  the \<^verbatim>\<open>sys.exit(-1)\<close> of line 154 (status 255) when that call raises \<^verbatim>\<open>re.error\<close>,
  with that exception uncaught (status 1) when it raises another one.
\<close>

theorem invalid_pattern_exits_without_writing:
  assumes "replace a = Some pairs" and "(p, r) \<in> set pairs"
    and "\<forall>r' t. \<exists>x. re_sub e p r' t = Inl x"
  shows "(\<exists>x. fst (main e a w) = Inl x)
    \<and> fst (run_script e a w) \<noteq> 0
    \<and> files (snd (run_script e a w)) = files w
    \<and> (fst (generated e a w) = Inr out \<longrightarrow>
         (\<exists>x. first_raise e pairs out = Some x
            \<and> fst (main e a w) = Inl (if x = ReError then SystemExit (- 1) else Uncaught x)
            \<and> fst (run_script e a w) = (if x = ReError then 255 else 1)))"
proof -
  have raised: "\<exists>x. first_raise e pairs t = Some x" for t
    by (rule first_raise_rejected [OF assms(2,3)])
  have fails: "\<exists>x. apply_replace e a t = Inl x" for t
  proof -
    from raised [of t] obtain x where "first_raise e pairs t = Some x" by blast
    from replace_loop_first_raise [OF this] assms(1) show ?thesis
      by (simp add: apply_replace_def)
  qed
  from main_never_replaced [of e a w, OF fails] obtain x
    where x: "fst (main e a w) = Inl x" and mf: "files (snd (main e a w)) = files w"
    by blast
  from run_script_failure_status [OF x] have st: "fst (run_script e a w) \<noteq> 0" by auto
  have last: "\<exists>x. first_raise e pairs out = Some x
      \<and> fst (main e a w) = Inl (if x = ReError then SystemExit (- 1) else Uncaught x)
      \<and> fst (run_script e a w) = (if x = ReError then 255 else 1)"
    if g: "fst (generated e a w) = Inr out"
  proof -
    from raised [of out] obtain y where y: "first_raise e pairs out = Some y" by blast
    from replace_loop_first_raise [OF y] assms(1)
    have ar: "apply_replace e a out = Inl (if y = ReError then SystemExit (- 1) else Uncaught y)"
      by (simp add: apply_replace_def)
    have m: "fst (main e a w) = Inl (if y = ReError then SystemExit (- 1) else Uncaught y)"
      using main_replace_fails [OF g ar] by simp
    have s: "fst (run_script e a w) = (if y = ReError then 255 else 1)"
    proof (cases "y = ReError")
      case True
      with ar have "apply_replace e a out = Inl (SystemExit (- 1))" by simp
      from run_replace_exit [OF g this] True show ?thesis by simp
    next
      case False
      with ar have "apply_replace e a out = Inl (Uncaught y)" by simp
      from run_replace_uncaught [OF g this] False show ?thesis by simp
    qed
    from y m s show ?thesis by blast
  qed
  from x st mf last show ?thesis by (auto simp add: run_script_files)
qed

theorem invalid_pattern_exits_without_writing_witness:
  "fst (main demo_env bad_pattern_args demo_world) = Inl (SystemExit (- 1))
   \<and> fst (run_script demo_env bad_pattern_args demo_world) = 255
   \<and> files (snd (run_script demo_env bad_pattern_args demo_world)) (u ''/out/enums.c'') = None
   \<and> fst (main demo_env overflow_pattern_args demo_world) = Inl (Uncaught OverflowError)
   \<and> fst (run_script demo_env overflow_pattern_args demo_world) = 1
   \<and> files (snd (run_script demo_env overflow_pattern_args demo_world)) (u ''/out/enums.c'') =
       None"
proof -
  have nf: "files demo_world (u ''/out/enums.c'') = None" by (simp add: demo_world_def)
  have 1: "replace bad_pattern_args = Some [(u ''GTypeFoo'', u ''GTypeBar''), (u ''('', u ''x'')]"
    by (simp add: bad_pattern_args_def)
  have 2: "(u ''('', u ''x'') \<in> set [(u ''GTypeFoo'', u ''GTypeBar''), (u ''('', u ''x'')]"
    by simp
  have 3: "\<forall>r' t. \<exists>x. re_sub demo_env (u ''('') r' t = Inl x"
    by (simp add: demo_env_def demo_engine_def)
  have 4: "fst (generated demo_env bad_pattern_args demo_world) = Inr [71, 84]"
    by (rule demo_generated) (simp add: bad_pattern_args_def demo_args_def)
  have 5: "first_raise demo_env [(u ''GTypeFoo'', u ''GTypeBar''), (u ''('', u ''x'')] [71, 84] =
      Some ReError"
    by (simp add: demo_env_def demo_engine_def u_def)
  from invalid_pattern_exits_without_writing [OF 1 2 3, of demo_world "[71, 84]"] 4 5
  have a: "fst (main demo_env bad_pattern_args demo_world) = Inl (SystemExit (- 1))"
    and b: "fst (run_script demo_env bad_pattern_args demo_world) = 255"
    and c: "files (snd (run_script demo_env bad_pattern_args demo_world)) = files demo_world"
    by auto
  have 6: "replace overflow_pattern_args = Some [(u ''a{99999999999}'', u ''x'')]"
    by (simp add: overflow_pattern_args_def)
  have 7: "(u ''a{99999999999}'', u ''x'') \<in> set [(u ''a{99999999999}'', u ''x'')]" by simp
  have 8: "\<forall>r' t. \<exists>x. re_sub demo_env (u ''a{99999999999}'') r' t = Inl x"
    by (simp add: demo_env_def demo_engine_def u_def)
  have 9: "fst (generated demo_env overflow_pattern_args demo_world) = Inr [71, 84]"
    by (rule demo_generated) (simp add: overflow_pattern_args_def demo_args_def)
  have 10: "first_raise demo_env [(u ''a{99999999999}'', u ''x'')] [71, 84] = Some OverflowError"
    by (simp add: demo_env_def demo_engine_def u_def)
  from invalid_pattern_exits_without_writing [OF 6 7 8, of demo_world "[71, 84]"] 9 10
  have d: "fst (main demo_env overflow_pattern_args demo_world) = Inl (Uncaught OverflowError)"
    and e: "fst (run_script demo_env overflow_pattern_args demo_world) = 1"
    and f: "files (snd (run_script demo_env overflow_pattern_args demo_world)) = files demo_world"
    by auto
  from a b c d e f nf show ?thesis by simp
qed

subsection \<open>How failures are reported\<close>

text \<open>
  Claim C7 says that every failure puts a message on standard error. It does not: a
  run whose only pattern is an unbalanced parenthesis exits with status 255 and prints
  nothing at all, and a run with a missing source directory prints its message on
  standard output and nothing on standard error.
\<close>

theorem failure_message_on_stderr_counterexample:
  "fst (run_script demo_env lone_bad_pattern_args demo_world) = 255
   \<and> stdout (snd (run_script demo_env lone_bad_pattern_args demo_world)) = []
   \<and> stderr (snd (run_script demo_env lone_bad_pattern_args demo_world)) = []
   \<and> fst (run_script demo_env bad_source_args demo_world) = 255
   \<and> stdout (snd (run_script demo_env bad_source_args demo_world)) = [source_dir_message]
   \<and> stderr (snd (run_script demo_env bad_source_args demo_world)) = []"
proof -
  have sd: "source_dir lone_bad_pattern_args = Some (u ''/src'')"
    by (simp add: lone_bad_pattern_args_def demo_args_def)
  have g: "fst (generated demo_env lone_bad_pattern_args demo_world) = Inr [71, 84]"
    by (rule demo_generated [OF sd])
  have a: "run_script demo_env lone_bad_pattern_args demo_world =
      (255, on_stderr (apply_replace_warnings demo_env lone_bad_pattern_args [71, 84])
              (snd (generated demo_env lone_bad_pattern_args demo_world)))"
    by (rule run_replace_exit [OF g demo_lone_bad_pattern])
  have b: "run_script demo_env bad_source_args demo_world =
      (255, print source_dir_message demo_world)"
    by (rule run_bad_source_dir [OF demo_debug demo_bad_source demo_nowhere])
  show ?thesis
    unfolding a b using demo_generated_streams [OF sd, of demo_world] demo_world_streams
    by (simp add: print_def on_stderr_def demo_no_warnings)
qed

text \<open>
  Claim C7, as the code has it. Every failure that the script or its argument parser
  detects ends the process with a non-zero status and without a traceback: standard
  error receives nothing but the message of \<^verbatim>\<open>argparse\<close>, what the generator wrote
  there and the warnings of \<^verbatim>\<open>re.sub\<close>.
  \<^item> A command line that \<^verbatim>\<open>argparse\<close> rejects: its message on standard error, status 2.
  \<^item> With assertions enabled, a \<^verbatim>\<open>--source-dir\<close> that is not a directory: one line on
    standard output, status 255, standard error untouched.
  \<^item> With assertions enabled, an \<^verbatim>\<open>--out-dir\<close> entry that is not a directory: one line
    on standard output, status 255.
  \<^item> A pattern for which the replacement loop ends the run (\<^verbatim>\<open>re.error\<close>): status 255
    and no message on either stream.
\<close>

theorem script_exits_report_on_stdout:
  "(parse_args e argv = Rejected message \<longrightarrow>
      fst (script e argv w) = 2
      \<and> stdout (snd (script e argv w)) = stdout w
      \<and> stderr (snd (script e argv w)) = stderr w @ [message])
   \<and> (parse_args e argv = Parsed a \<and> debug e \<and> source_dir a = Some d \<and> \<not> isdir e d \<longrightarrow>
      fst (script e argv w) = 255
      \<and> stdout (snd (script e argv w)) = stdout w @ [source_dir_message]
      \<and> stderr (snd (script e argv w)) = stderr w)
   \<and> (parse_args e argv = Parsed a \<and> debug e
        \<and> fst (generated e a w) = Inr out \<and> apply_replace e a out = Inr out'
        \<and> out_dir a = Some dirs \<and> d' \<in> set dirs \<and> \<not> isdir e d' \<longrightarrow>
      fst (script e argv w) = 255
      \<and> stdout (snd (script e argv w)) = stdout w @ [out_dir_message]
      \<and> (\<exists>generator_args p. spawn e generator_args = Inr p
            \<and> stderr (snd (script e argv w)) =
                stderr w @ stderr_lines p @ apply_replace_warnings e a out))
   \<and> (parse_args e argv = Parsed a
        \<and> fst (generated e a w) = Inr out \<and> apply_replace e a out = Inl (SystemExit n) \<longrightarrow>
      fst (script e argv w) = 255
      \<and> stdout (snd (script e argv w)) = stdout w
      \<and> (\<exists>generator_args p. spawn e generator_args = Inr p
            \<and> stderr (snd (script e argv w)) =
                stderr w @ stderr_lines p @ apply_replace_warnings e a out))"
proof (intro conjI impI)
  assume "parse_args e argv = Rejected message"
  then have r: "script e argv w = (2, on_stderr [message] w)" by (rule script_rejected)
  show "fst (script e argv w) = 2" by (simp add: r)
  show "stdout (snd (script e argv w)) = stdout w" by (simp add: r streams_on_stderr)
  show "stderr (snd (script e argv w)) = stderr w @ [message]"
    by (simp add: r streams_on_stderr)
next
  assume h: "parse_args e argv = Parsed a \<and> debug e \<and> source_dir a = Some d \<and> \<not> isdir e d"
  then have r: "script e argv w = (255, print source_dir_message w)"
    using run_bad_source_dir [of e a d w] by (simp add: script_parsed)
  show "fst (script e argv w) = 255" by (simp add: r)
  show "stdout (snd (script e argv w)) = stdout w @ [source_dir_message]"
    by (simp add: r streams_print)
  show "stderr (snd (script e argv w)) = stderr w" by (simp add: r streams_print)
next
  assume h: "parse_args e argv = Parsed a \<and> debug e
        \<and> fst (generated e a w) = Inr out \<and> apply_replace e a out = Inr out'
        \<and> out_dir a = Some dirs \<and> d' \<in> set dirs \<and> \<not> isdir e d'"
  then have r: "script e argv w =
      (255, print out_dir_message
              (on_stderr (apply_replace_warnings e a out) (snd (generated e a w))))"
    using run_bad_out_dir [of e a w out out' dirs d'] by (simp add: script_parsed)
  from h generated_ok_streams [of e a w out] obtain generator_args p
    where so: "stdout (snd (generated e a w)) = stdout w"
      and sp: "spawn e generator_args = Inr p"
      and se: "stderr (snd (generated e a w)) = stderr w @ stderr_lines p"
    by blast
  show "fst (script e argv w) = 255" by (simp add: r)
  show "stdout (snd (script e argv w)) = stdout w @ [out_dir_message]"
    by (simp add: r streams_print streams_on_stderr so)
  have "stderr (snd (script e argv w)) =
      stderr w @ stderr_lines p @ apply_replace_warnings e a out"
    by (simp add: r streams_print streams_on_stderr se)
  with sp show "\<exists>generator_args p. spawn e generator_args = Inr p
      \<and> stderr (snd (script e argv w)) =
          stderr w @ stderr_lines p @ apply_replace_warnings e a out"
    by blast
next
  assume h: "parse_args e argv = Parsed a
        \<and> fst (generated e a w) = Inr out \<and> apply_replace e a out = Inl (SystemExit n)"
  then have r: "script e argv w =
      (255, on_stderr (apply_replace_warnings e a out) (snd (generated e a w)))"
    using run_replace_exit [of e a w out n] by (simp add: script_parsed)
  from h generated_ok_streams [of e a w out] obtain generator_args p
    where so: "stdout (snd (generated e a w)) = stdout w"
      and sp: "spawn e generator_args = Inr p"
      and se: "stderr (snd (generated e a w)) = stderr w @ stderr_lines p"
    by blast
  show "fst (script e argv w) = 255" by (simp add: r)
  show "stdout (snd (script e argv w)) = stdout w"
    by (simp add: r streams_on_stderr so)
  have "stderr (snd (script e argv w)) =
      stderr w @ stderr_lines p @ apply_replace_warnings e a out"
    by (simp add: r streams_on_stderr se)
  with sp show "\<exists>generator_args p. spawn e generator_args = Inr p
      \<and> stderr (snd (script e argv w)) =
          stderr w @ stderr_lines p @ apply_replace_warnings e a out"
    by blast
qed

theorem script_exits_report_on_stdout_witness:
  "fst (script demo_env [] demo_world) = 2
   \<and> stdout (snd (script demo_env [] demo_world)) = []
   \<and> stderr (snd (script demo_env [] demo_world)) = [usage_message]
   \<and> fst (script (demo_env\<lparr>parse_args := \<lambda>argv. Parsed bad_source_args\<rparr>) [] demo_world) = 255
   \<and> stdout (snd (script (demo_env\<lparr>parse_args := \<lambda>argv. Parsed bad_source_args\<rparr>) []
        demo_world)) = [source_dir_message]
   \<and> stderr (snd (script (demo_env\<lparr>parse_args := \<lambda>argv. Parsed bad_source_args\<rparr>) []
        demo_world)) = []
   \<and> fst (script (noisy_env\<lparr>parse_args := \<lambda>argv. Parsed bad_out_args\<rparr>) [] demo_world) = 255
   \<and> stdout (snd (script (noisy_env\<lparr>parse_args := \<lambda>argv. Parsed bad_out_args\<rparr>) []
        demo_world)) = [out_dir_message]
   \<and> stderr (snd (script (noisy_env\<lparr>parse_args := \<lambda>argv. Parsed bad_out_args\<rparr>) []
        demo_world)) = [u ''a.h: no enums found'']
   \<and> fst (script (noisy_env\<lparr>parse_args := \<lambda>argv. Parsed lone_bad_pattern_args\<rparr>) []
        demo_world) = 255
   \<and> stdout (snd (script (noisy_env\<lparr>parse_args := \<lambda>argv. Parsed lone_bad_pattern_args\<rparr>) []
        demo_world)) = []
   \<and> stderr (snd (script (noisy_env\<lparr>parse_args := \<lambda>argv. Parsed lone_bad_pattern_args\<rparr>) []
        demo_world)) = [u ''a.h: no enums found'']"
proof -
  let ?e1 = "demo_env\<lparr>parse_args := \<lambda>argv. Parsed bad_source_args\<rparr>"
  let ?e2 = "noisy_env\<lparr>parse_args := \<lambda>argv. Parsed bad_out_args\<rparr>"
  let ?e3 = "noisy_env\<lparr>parse_args := \<lambda>argv. Parsed lone_bad_pattern_args\<rparr>"
  note ws = demo_world_streams
  have p0: "parse_args demo_env [] = Rejected usage_message" by (simp add: demo_env_def)
  from script_exits_report_on_stdout [of demo_env "[]" usage_message demo_world] p0 ws
  have c0: "fst (script demo_env [] demo_world) = 2
     \<and> stdout (snd (script demo_env [] demo_world)) = []
     \<and> stderr (snd (script demo_env [] demo_world)) = [usage_message]"
    by simp
  have p1: "parse_args ?e1 [] = Parsed bad_source_args" by simp
  have d1: "debug ?e1" by (simp add: demo_env_def)
  have n1: "\<not> isdir ?e1 (u ''/nowhere'')" by (simp add: demo_env_def u_def)
  from script_exits_report_on_stdout
    [where e = ?e1 and argv = "[]" and a = bad_source_args and d = "u ''/nowhere''"
      and w = demo_world]
    p1 d1 demo_bad_source n1 ws
  have c1: "fst (script ?e1 [] demo_world) = 255
     \<and> stdout (snd (script ?e1 [] demo_world)) = [source_dir_message]
     \<and> stderr (snd (script ?e1 [] demo_world)) = []"
    by simp
  have p2: "parse_args ?e2 [] = Parsed bad_out_args" by simp
  have d2: "debug ?e2" by (simp add: noisy_env_def demo_env_def)
  have g2: "fst (generated ?e2 bad_out_args demo_world) = Inr [71, 84]"
    by (rule noisy_generated) (simp add: bad_out_args_def demo_args_def)
  have r2: "apply_replace ?e2 bad_out_args [71, 84] = Inr [71, 84]"
    by (simp add: apply_replace_def bad_out_args_def demo_args_def)
  have w2: "apply_replace_warnings ?e2 bad_out_args [71, 84] = []"
    by (simp add: apply_replace_warnings_def bad_out_args_def demo_args_def)
  have o2: "out_dir bad_out_args = Some [u ''/out'', u ''/missing'']"
    by (simp add: bad_out_args_def)
  have m2: "u ''/missing'' \<in> set [u ''/out'', u ''/missing'']" by simp
  have n2: "\<not> isdir ?e2 (u ''/missing'')" by (simp add: noisy_env_def demo_env_def u_def)
  have sp2: "spawn ?e2 generator_args = Inr p \<Longrightarrow> stderr_lines p = [u ''a.h: no enums found'']"
    for generator_args p
    by (auto simp add: noisy_env_def noisy_proc_def)
  from script_exits_report_on_stdout
    [where e = ?e2 and argv = "[]" and a = bad_out_args and w = demo_world
      and out = "[71, 84]" and out' = "[71, 84]" and dirs = "[u ''/out'', u ''/missing'']"
      and d' = "u ''/missing''"]
    p2 d2 g2 r2 o2 m2 n2
  have "fst (script ?e2 [] demo_world) = 255
     \<and> stdout (snd (script ?e2 [] demo_world)) = stdout demo_world @ [out_dir_message]
     \<and> (\<exists>generator_args p. spawn ?e2 generator_args = Inr p
           \<and> stderr (snd (script ?e2 [] demo_world)) =
               stderr demo_world @ stderr_lines p
                 @ apply_replace_warnings ?e2 bad_out_args [71, 84])"
    by blast
  with sp2 w2 ws
  have c2: "fst (script ?e2 [] demo_world) = 255
     \<and> stdout (snd (script ?e2 [] demo_world)) = [out_dir_message]
     \<and> stderr (snd (script ?e2 [] demo_world)) = [u ''a.h: no enums found'']"
    by auto
  have p3: "parse_args ?e3 [] = Parsed lone_bad_pattern_args" by simp
  have g3: "fst (generated ?e3 lone_bad_pattern_args demo_world) = Inr [71, 84]"
    by (rule noisy_generated) (simp add: lone_bad_pattern_args_def demo_args_def)
  have r3: "apply_replace ?e3 lone_bad_pattern_args [71, 84] = Inl (SystemExit (- 1))"
    by (simp add: apply_replace_def lone_bad_pattern_args_def noisy_env_def demo_env_def
        demo_engine_def)
  have w3: "apply_replace_warnings ?e3 lone_bad_pattern_args [71, 84] = []"
    by (simp add: apply_replace_warnings_def lone_bad_pattern_args_def noisy_env_def
        demo_env_def demo_engine_def)
  have sp3: "spawn ?e3 generator_args = Inr p \<Longrightarrow> stderr_lines p = [u ''a.h: no enums found'']"
    for generator_args p
    by (auto simp add: noisy_env_def noisy_proc_def)
  from script_exits_report_on_stdout
    [where e = ?e3 and argv = "[]" and a = lone_bad_pattern_args and w = demo_world
      and out = "[71, 84]" and n = "- 1"]
    p3 g3 r3
  have "fst (script ?e3 [] demo_world) = 255
     \<and> stdout (snd (script ?e3 [] demo_world)) = stdout demo_world
     \<and> (\<exists>generator_args p. spawn ?e3 generator_args = Inr p
           \<and> stderr (snd (script ?e3 [] demo_world)) =
               stderr demo_world @ stderr_lines p
                 @ apply_replace_warnings ?e3 lone_bad_pattern_args [71, 84])"
    by blast
  with sp3 w3 ws
  have c3: "fst (script ?e3 [] demo_world) = 255
     \<and> stdout (snd (script ?e3 [] demo_world)) = []
     \<and> stderr (snd (script ?e3 [] demo_world)) = [u ''a.h: no enums found'']"
    by auto
  from c0 c1 c2 c3 show ?thesis by simp
qed

section \<open>Determinism\<close>

lemma extend_id: "extend Map.empty [] [] [] w = w"
  by (simp add: extend_def)

lemma extend_print: "print m w = extend Map.empty [m] [] [] w"
  by (simp add: extend_def print_def)

lemma extend_on_stderr: "on_stderr ls w = extend Map.empty [] ls [] w"
  by (simp add: extend_def on_stderr_def)

lemma extend_spawned: "w\<lparr>spawned := spawned w @ [x]\<rparr> = extend Map.empty [] [] [x] w"
  by (simp add: extend_def)

lemma extend_file: "w\<lparr>files := (files w)(p \<mapsto> c)\<rparr> = extend [p \<mapsto> c] [] [] [] w"
  by (simp add: extend_def)

lemma extend_extend:
  "extend D2 S2 E2 P2 (extend D1 S1 E1 P1 w) =
     extend (D1 ++ D2) (S1 @ S2) (E1 @ E2) (P1 @ P2) w"
  by (simp add: extend_def)

lemma effectI: "(\<And>w. f w = (r, extend D S E P w)) \<Longrightarrow> effect f"
  unfolding effect_def by blast

lemma effect_on_stderr: "effect (\<lambda>w. (r, on_stderr ls w))"
  using effectI [of "\<lambda>w. (r, on_stderr ls w)" r Map.empty "[]" ls "[]"]
  by (simp add: extend_on_stderr)

lemma effect_Popen: "effect (Popen e cmd)"
proof (cases "None \<in> set cmd")
  case True
  then have "Popen e cmd w = (Inl TypeError, extend Map.empty [] [] [] w)" for w
    by (simp add: Popen_def extend_id)
  then show ?thesis by (rule effectI)
next
  case False
  show ?thesis
  proof (cases "spawn e (map the cmd)")
    case (Inl x)
    with False have "Popen e cmd w = (Inl x, extend Map.empty [] [] [] w)" for w
      by (simp add: Popen_def extend_id)
    then show ?thesis by (rule effectI)
  next
    case (Inr p)
    with False have "Popen e cmd w = (Inr p, extend Map.empty [] [] [map the cmd] w)" for w
      by (simp add: Popen_def extend_spawned)
    then show ?thesis by (rule effectI)
  qed
qed

lemma effect_map:
  assumes "effect f"
  shows "effect (\<lambda>w. case f w of (r, w') \<Rightarrow> (g r, w'))"
proof -
  from assms obtain r D S E P where "\<And>w. f w = (r, extend D S E P w)"
    unfolding effect_def by blast
  then have "(case f w of (r, w') \<Rightarrow> (g r, w')) = (g r, extend D S E P w)" for w by simp
  then show ?thesis by (rule effectI)
qed

lemma effect_communicate: "effect (communicate p)"
proof -
  have "communicate p w = ((stdout_data p, None), extend Map.empty [] (stderr_lines p) [] w)"
    for w
    by (simp add: communicate_def extend_on_stderr)
  then show ?thesis by (rule effectI)
qed

lemma effect_return: "effect (\<lambda>w. (r, w))"
  using effectI [of "\<lambda>w. (r, w)" r Map.empty "[]" "[]" "[]"] by (simp add: extend_id)

lemma effect_bind:
  assumes "effect f" and "\<And>r. effect (g r)"
  shows "effect (\<lambda>w. case f w of (r, w') \<Rightarrow> g r w')"
proof -
  from assms(1) obtain r D S E P where f: "\<And>w. f w = (r, extend D S E P w)"
    unfolding effect_def by blast
  from assms(2) [of r] obtain r' D' S' E' P'
    where g: "\<And>w. g r w = (r', extend D' S' E' P' w)"
    unfolding effect_def by blast
  have "(case f w of (r, w') \<Rightarrow> g r w') =
      (r', extend (D ++ D') (S @ S') (E @ E') (P @ P') w)" for w
    by (simp add: f g extend_extend)
  then show ?thesis by (rule effectI)
qed

lemma effect_create_enum_source:
  "effect (create_enum_source e a fhead fprod ftail vhead vprod vtail)"
proof (cases "if debug e then path_isdir e (source_dir a) else Inr True")
  case (Inl x)
  then have "create_enum_source e a fhead fprod ftail vhead vprod vtail w =
      (Inl (Uncaught x), extend Map.empty [] [] [] w)" for w
    by (simp add: create_enum_source_def extend_id)
  then show ?thesis by (rule effectI)
next
  case (Inr b)
  show ?thesis
  proof (cases b)
    case False
    with Inr have "create_enum_source e a fhead fprod ftail vhead vprod vtail w =
        (Inl (SystemExit (- 1)), extend Map.empty [source_dir_message] [] [] w)" for w
      by (simp add: create_enum_source_def extend_print)
    then show ?thesis by (rule effectI)
  next
    case True
    define h :: "bytes \<times> bytes option \<Rightarrow> abort + ustr" where
      "h c = (case c of
          (output, Some error) \<Rightarrow> Inl (Uncaught TypeError)
        | (output, None) \<Rightarrow>
            (case utf8_decode output of
               None \<Rightarrow> Inl (Uncaught UnicodeDecodeError)
             | Some t \<Rightarrow> Inr t))" for c
    define g :: "exn + proc \<Rightarrow> world \<Rightarrow> (abort + ustr) \<times> world" where
      "g r = (case r of
          Inl x \<Rightarrow> (\<lambda>w. (Inl (Uncaught x), w))
        | Inr process \<Rightarrow> (\<lambda>w. case communicate process w of (c, w') \<Rightarrow> (h c, w')))" for r
    define cmd where "cmd =
       [which e (u ''glib-mkenums''),
        Some (u ''--fhead''), Some fhead, Some (u ''--fprod''), Some fprod,
        Some (u ''--ftail''), Some ftail, Some (u ''--vhead''), Some vhead,
        Some (u ''--vprod''), Some vprod, Some (u ''--vtail''), Some vtail] @
       map Some (case source_dir a of
           Some d \<Rightarrow> map (\<lambda>source_file. path_join d source_file) (sources a)
         | None \<Rightarrow> map (\<lambda>source_file. path_join (get_script_path e) source_file) (sources a))"
    have g: "effect (g r)" for r
      by (cases r) (simp_all add: g_def effect_return effect_map [OF effect_communicate])
    have "create_enum_source e a fhead fprod ftail vhead vprod vtail =
        (\<lambda>w. case Popen e cmd w of (r, w') \<Rightarrow> g r w')"
      using Inr True
      by (auto simp add: create_enum_source_def g_def h_def cmd_def Let_def fun_eq_iff
          split: prod.split sum.split option.split)
    then show ?thesis
      using effect_bind [OF effect_Popen, of g e cmd, OF g] by simp
  qed
qed

lemma effect_write_file: "effect (write_file e p out)"
proof (cases "can_open e p")
  case True
  then have "write_file e p out w = (Inr (), extend [p \<mapsto> out] [] [] [] w)" for w
    by (simp add: write_file_def extend_file)
  then show ?thesis by (rule effectI)
next
  case False
  then have "write_file e p out w = (Inl (Uncaught OSError), extend Map.empty [] [] [] w)" for w
    by (simp add: write_file_def extend_id)
  then show ?thesis by (rule effectI)
qed

lemma effect_write_loop: "effect (write_loop e dirs file out)"
proof (induction dirs)
  case Nil
  have "write_loop e [] file out = (\<lambda>w. (Inr (), w))" by (simp add: fun_eq_iff)
  then show ?case by (simp add: effect_return)
next
  case (Cons d rest)
  define g :: "abort + unit \<Rightarrow> world \<Rightarrow> (abort + unit) \<times> world" where
    "g r = (case r of Inl x \<Rightarrow> (\<lambda>w. (Inl x, w)) | Inr _ \<Rightarrow> write_loop e rest file out)" for r
  have g: "effect (g r)" for r
    by (cases r) (simp_all add: g_def effect_return Cons.IH)
  have "write_loop e (d # rest) file out =
      (\<lambda>w. case write_file e (path_join d file) out w of (r, w') \<Rightarrow> g r w')"
    by (simp add: fun_eq_iff g_def split: prod.split sum.split)
  then show ?case using effect_bind [OF effect_write_file, of g, OF g] by simp
qed

lemma effect_write_enum_source_file: "effect (write_enum_source_file e a out)"
proof (cases "out_dir a")
  case None
  then have "write_enum_source_file e a out =
      write_file e (path_join (get_script_path e) (output_file a)) out"
    by (simp add: write_enum_source_file_def fun_eq_iff)
  then show ?thesis by (simp add: effect_write_file)
next
  case (Some dirs)
  show ?thesis
  proof (cases "debug e \<and> \<not> assert_dirs e dirs")
    case False
    with Some have "write_enum_source_file e a out = write_loop e dirs (output_file a) out"
      by (auto simp add: write_enum_source_file_def fun_eq_iff)
    then show ?thesis by (simp add: effect_write_loop)
  next
    case True
    with Some have "write_enum_source_file e a out w =
        (Inl (SystemExit (- 1)), extend Map.empty [out_dir_message] [] [] w)" for w
      by (simp add: write_enum_source_file_def extend_print)
    then show ?thesis by (rule effectI)
  qed
qed

lemma effect_generated: "effect (generated e a)"
proof -
  obtain fh fp ft vh vp vt where T: "get_template_sections a = (fh, fp, ft, vh, vp, vt)"
    by (cases "get_template_sections a" rule: prod_cases6)
  then have "generated e a = create_enum_source e a fh fp ft vh vp vt"
    by (simp add: generated_def fun_eq_iff)
  then show ?thesis by (simp add: effect_create_enum_source)
qed

lemma effect_main: "effect (main e a)"
proof -
  define k :: "ustr \<Rightarrow> unit \<Rightarrow> world \<Rightarrow> (abort + unit) \<times> world" where
    "k out r = (case apply_replace e a out of
        Inl x \<Rightarrow> (\<lambda>w. (Inl x, w))
      | Inr out' \<Rightarrow> write_enum_source_file e a out')" for out r
  define g :: "abort + ustr \<Rightarrow> world \<Rightarrow> (abort + unit) \<times> world" where
    "g r = (case r of
        Inl x \<Rightarrow> (\<lambda>w. (Inl x, w))
      | Inr out \<Rightarrow>
          (\<lambda>w. case ((), on_stderr (apply_replace_warnings e a out) w) of
                  (r', w') \<Rightarrow> k out r' w'))" for r
  have k: "effect (k out r)" for out r
    by (simp add: k_def effect_return effect_write_enum_source_file split: sum.split)
  have g: "effect (g r)" for r
  proof (cases r)
    case (Inl x)
    then show ?thesis by (simp add: g_def effect_return)
  next
    case (Inr out)
    from effect_bind [OF effect_on_stderr, of "k out", OF k] Inr
    show ?thesis by (simp add: g_def)
  qed
  have "main e a = (\<lambda>w. case generated e a w of (r, w') \<Rightarrow> g r w')"
    by (simp add: fun_eq_iff main_generated g_def k_def split: prod.split sum.split)
  then show ?thesis using effect_bind [OF effect_generated, of g, OF g] by simp
qed

lemma files_extend: "files (extend D S E P w) = files w ++ D"
  by (simp add: extend_def)

lemma map_add_twice: "m ++ D ++ D = m ++ D"
  by (simp add: map_add_def fun_eq_iff split: option.split)

text \<open>
  Claim C9. Two runs with the same arguments in the same environment (the same
  directories, the same generator, the same engine) end the same way whatever the files
  held before; a file that one run changes is left with the same content by the other;
  running again on the result of a run changes no file; and after a successful run every
  output path holds the same text in both runs.
\<close>

theorem rerun_writes_identical_files:
  "fst (main e a w1) = fst (main e a w2)
   \<and> (\<forall>p. files (snd (main e a w1)) p \<noteq> files w1 p \<longrightarrow>
         files (snd (main e a w2)) p = files (snd (main e a w1)) p)
   \<and> files (snd (main e a (snd (main e a w1)))) = files (snd (main e a w1))
   \<and> (fst (main e a w1) = Inr () \<longrightarrow>
        (\<exists>c. \<forall>p \<in> set (output_paths e a).
           files (snd (main e a w1)) p = Some c \<and> files (snd (main e a w2)) p = Some c))"
proof -
  from effect_main [of e a] obtain r D S E P
    where m: "\<And>w. main e a w = (r, extend D S E P w)"
    unfolding effect_def by blast
  from effect_generated [of e a] obtain g D' S' E' P'
    where g: "\<And>w. generated e a w = (g, extend D' S' E' P' w)"
    unfolding effect_def by blast
  have same: "fst (main e a w1) = fst (main e a w2)" by (simp add: m)
  have changed: "\<forall>p. files (snd (main e a w1)) p \<noteq> files w1 p \<longrightarrow>
         files (snd (main e a w2)) p = files (snd (main e a w1)) p"
    by (auto simp add: m files_extend map_add_def split: option.splits)
  have again: "files (snd (main e a (snd (main e a w1)))) = files (snd (main e a w1))"
    by (simp add: m files_extend map_add_twice)
  have written: "\<exists>c. \<forall>p \<in> set (output_paths e a).
      files (snd (main e a w1)) p = Some c \<and> files (snd (main e a w2)) p = Some c"
    if ok: "fst (main e a w1) = Inr ()"
  proof -
    from ok same have ok2: "fst (main e a w2) = Inr ()" by simp
    from main_ok_written [OF ok] obtain out1 c1 where
      1: "fst (generated e a w1) = Inr out1" "apply_replace e a out1 = Inr c1"
         "\<forall>p \<in> set (output_paths e a). files (snd (main e a w1)) p = Some c1"
      by blast
    from main_ok_written [OF ok2] obtain out2 c2 where
      2: "fst (generated e a w2) = Inr out2" "apply_replace e a out2 = Inr c2"
         "\<forall>p \<in> set (output_paths e a). files (snd (main e a w2)) p = Some c2"
      by blast
    from 1(1) 2(1) have "out1 = out2" by (simp add: g)
    with 1(2) 2(2) have "c1 = c2" by simp
    with 1(3) 2(3) show ?thesis by blast
  qed
  from same changed again written show ?thesis by blast
qed

theorem rerun_writes_identical_files_witness:
  "fst (main demo_env demo_args demo_world) = Inr ()
   \<and> fst (main demo_env demo_args stale_world) = Inr ()
   \<and> files stale_world (u ''/out/enums.c'') = Some (u ''stale'')
   \<and> files (snd (main demo_env demo_args demo_world)) (u ''/out/enums.c'') = Some [71, 84]
   \<and> files (snd (main demo_env demo_args stale_world)) (u ''/out/enums.c'') = Some [71, 84]
   \<and> files (snd (main demo_env demo_args (snd (main demo_env demo_args demo_world))))
        (u ''/out/enums.c'') = Some [71, 84]"
proof -
  have g: "fst (generated demo_env demo_args w) = Inr [71, 84]" for w
    by (rule demo_generated) (simp add: demo_args_def)
  have r: "apply_replace demo_env demo_args [71, 84] = Inr [71, 84]"
    by (simp add: apply_replace_def demo_args_def)
  have o: "out_dir demo_args = Some [u ''/out'']" by (simp add: demo_args_def)
  have d: "\<forall>d \<in> set [u ''/out'']. isdir demo_env d" by (simp add: demo_env_def)
  have c: "\<forall>p. can_open demo_env p" by (simp add: demo_env_def)
  have p: "u ''/out/enums.c'' \<in> set (output_paths demo_env demo_args)"
    by (simp add: output_paths_def demo_args_def demo_out_path)
  have ok: "fst (main demo_env demo_args demo_world) = Inr ()"
    by (rule main_success(1) [OF g r o d c])
  have first: "files (snd (main demo_env demo_args demo_world)) (u ''/out/enums.c'') = Some [71, 84]"
    by (rule main_success(2) [OF g r o d c p])
  have st: "files stale_world (u ''/out/enums.c'') = Some (u ''stale'')"
    by (simp add: stale_world_def)
  from rerun_writes_identical_files [of demo_env demo_args demo_world stale_world] ok p first st
  show ?thesis by auto
qed

end
